theory Spec2Isabelle
  imports Complex_Main "HOL-Library.AList" "HOL-Library.Char_ord" "HOL-Library.List_Lexorder"
begin

section \<open>JavaScript numbers and primitive values\<close>

text \<open>
  A JavaScript number is NaN, one of the two infinities, or a finite value. Finite values
  are modelled by exact reals: rounding of the binary representation, overflow of a finite
  result to an infinity and the sign of zero (every zero is read as +0) are abstracted.
  The special values behave as IEEE 754 has them, which is what the scorer and the
  feature extractor are sensitive to.
\<close>

datatype jsnum = NaN | PInf | NInf | Fin real

fun js_neg :: "jsnum \<Rightarrow> jsnum" where
  "js_neg NaN = NaN"
| "js_neg PInf = NInf"
| "js_neg NInf = PInf"
| "js_neg (Fin a) = Fin (- a)"

fun js_add :: "jsnum \<Rightarrow> jsnum \<Rightarrow> jsnum" where
  "js_add NaN _ = NaN"
| "js_add _ NaN = NaN"
| "js_add (Fin a) (Fin b) = Fin (a + b)"
| "js_add PInf NInf = NaN"
| "js_add NInf PInf = NaN"
| "js_add PInf _ = PInf"
| "js_add _ PInf = PInf"
| "js_add NInf _ = NInf"
| "js_add _ NInf = NInf"

definition js_sub :: "jsnum \<Rightarrow> jsnum \<Rightarrow> jsnum" where
  "js_sub a b = js_add a (js_neg b)"

fun js_mul :: "jsnum \<Rightarrow> jsnum \<Rightarrow> jsnum" where
  "js_mul NaN _ = NaN"
| "js_mul _ NaN = NaN"
| "js_mul (Fin a) (Fin b) = Fin (a * b)"
| "js_mul PInf (Fin b) = (if b = 0 then NaN else if 0 < b then PInf else NInf)"
| "js_mul NInf (Fin b) = (if b = 0 then NaN else if 0 < b then NInf else PInf)"
| "js_mul (Fin a) PInf = (if a = 0 then NaN else if 0 < a then PInf else NInf)"
| "js_mul (Fin a) NInf = (if a = 0 then NaN else if 0 < a then NInf else PInf)"
| "js_mul PInf PInf = PInf"
| "js_mul PInf NInf = NInf"
| "js_mul NInf PInf = NInf"
| "js_mul NInf NInf = PInf"

fun js_div :: "jsnum \<Rightarrow> jsnum \<Rightarrow> jsnum" where
  "js_div NaN _ = NaN"
| "js_div _ NaN = NaN"
| "js_div (Fin a) (Fin b) =
     (if b = 0 then (if a = 0 then NaN else if 0 < a then PInf else NInf) else Fin (a / b))"
| "js_div (Fin a) _ = Fin 0"
| "js_div PInf (Fin b) = (if 0 \<le> b then PInf else NInf)"
| "js_div NInf (Fin b) = (if 0 \<le> b then NInf else PInf)"
| "js_div _ _ = NaN"

text \<open>The relational operators: every comparison with NaN is false.\<close>

fun js_lt :: "jsnum \<Rightarrow> jsnum \<Rightarrow> bool" where
  "js_lt NaN _ = False"
| "js_lt _ NaN = False"
| "js_lt (Fin a) (Fin b) = (a < b)"
| "js_lt NInf NInf = False"
| "js_lt NInf _ = True"
| "js_lt _ NInf = False"
| "js_lt PInf _ = False"
| "js_lt _ PInf = True"

definition js_gt :: "jsnum \<Rightarrow> jsnum \<Rightarrow> bool" where
  "js_gt a b = js_lt b a"

definition js_ge :: "jsnum \<Rightarrow> jsnum \<Rightarrow> bool" where
  "js_ge a b = (a \<noteq> NaN \<and> b \<noteq> NaN \<and> \<not> js_lt a b)"

definition js_le :: "jsnum \<Rightarrow> jsnum \<Rightarrow> bool" where
  "js_le a b = js_ge b a"

text \<open>\<^verbatim>\<open>Math.abs\<close>, \<^verbatim>\<open>Math.round\<close> (halves go up), \<^verbatim>\<open>Math.min\<close>, \<^verbatim>\<open>Math.max\<close>,
  \<^verbatim>\<open>Math.sqrt\<close>.\<close>

fun js_abs :: "jsnum \<Rightarrow> jsnum" where
  "js_abs NaN = NaN"
| "js_abs PInf = PInf"
| "js_abs NInf = PInf"
| "js_abs (Fin a) = Fin \<bar>a\<bar>"

fun js_round :: "jsnum \<Rightarrow> jsnum" where
  "js_round (Fin a) = Fin (of_int \<lfloor>a + 1 / 2\<rfloor>)"
| "js_round x = x"

definition js_min2 :: "jsnum \<Rightarrow> jsnum \<Rightarrow> jsnum" where
  "js_min2 a b = (if a = NaN \<or> b = NaN then NaN else if js_lt b a then b else a)"

definition js_max2 :: "jsnum \<Rightarrow> jsnum \<Rightarrow> jsnum" where
  "js_max2 a b = (if a = NaN \<or> b = NaN then NaN else if js_lt a b then b else a)"

definition Math_max :: "jsnum list \<Rightarrow> jsnum" where
  "Math_max xs = foldl js_max2 NInf xs"

definition Math_min :: "jsnum list \<Rightarrow> jsnum" where
  "Math_min xs = foldl js_min2 PInf xs"

fun js_sqrt :: "jsnum \<Rightarrow> jsnum" where
  "js_sqrt (Fin a) = (if a < 0 then NaN else Fin (sqrt a))"
| "js_sqrt PInf = PInf"
| "js_sqrt _ = NaN"

text \<open>Truthiness of a number, and \<^verbatim>\<open>a || d\<close> on numbers.\<close>

definition truthy_num :: "jsnum \<Rightarrow> bool" where
  "truthy_num a = (a \<noteq> NaN \<and> a \<noteq> Fin 0)"

definition or_else :: "jsnum \<Rightarrow> jsnum \<Rightarrow> jsnum" where
  "or_else a d = (if truthy_num a then a else d)"

text \<open>
  The values that stand where the code expects a number: a feature value, a threshold, a
  field of a profile entry. A missing property reads as \<open>Undefined\<close>; \<open>Null\<close> is what
  JSON holds in place of a number it cannot write.
\<close>

datatype jsval = Undefined | Null | Bool bool | Num jsnum

fun to_number :: "jsval \<Rightarrow> jsnum" where
  "to_number Undefined = NaN"
| "to_number Null = Fin 0"
| "to_number (Bool b) = (if b then Fin 1 else Fin 0)"
| "to_number (Num a) = a"

fun truthy :: "jsval \<Rightarrow> bool" where
  "truthy (Num a) = truthy_num a"
| "truthy (Bool b) = b"
| "truthy _ = False"

type_synonym object = "(string \<times> jsval) list"

definition get_prop :: "object \<Rightarrow> string \<Rightarrow> jsval" where
  "get_prop obj k = (case map_of obj k of None \<Rightarrow> Undefined | Some v \<Rightarrow> v)"

section \<open>The fraud detector (fraud-detector.js)\<close>

datatype risk_level = Low | Medium | High

datatype severity = low | medium | high

text \<open>A description is kept as the pieces of its template; numbers are not rendered.\<close>

datatype piece = Lit string | Shown jsnum | ToFixed jsval nat | ToLocale jsval

record factor =
  ftype :: string
  description :: "piece list"
  contribution :: jsnum
  severity :: severity

record stats =
  st_mean :: jsval
  st_std :: jsval
  st_min :: jsval
  st_max :: jsval
  st_median :: jsval
  st_p25 :: jsval
  st_p75 :: jsval
  st_p90 :: jsval
  st_p95 :: jsval
  st_count :: jsval

record fraud_type_entry =
  ft_count :: jsval
  ft_totalAmount :: jsval
  ft_avgAmount :: jsval
  ft_indicators :: object

record industry_entry =
  in_count :: jsval
  in_totalAmount :: jsval
  in_fraudTypes :: object

record common_factor =
  cf_indicator :: string
  cf_count :: jsval
  cf_weight :: jsval

text \<open>\<open>fraudPatterns\<close> is \<^verbatim>\<open>{}\<close> until the model is trained or loaded: each property
  may be missing.\<close>

record fraud_patterns =
  byFraudType :: "(string \<times> fraud_type_entry) list option"
  byIndustry :: "(string \<times> industry_entry) list option"
  indicators :: "object option"
  commonFactors :: "common_factor list option"

record FraudDetector =
  trained :: bool
  featureStats :: "(string \<times> stats) list"
  fraudPatterns :: fraud_patterns
  thresholds :: object
  modelVersion :: string

definition new_FraudDetector :: FraudDetector where
  "new_FraudDetector =
     \<lparr>trained = False, featureStats = [],
      fraudPatterns = \<lparr>byFraudType = None, byIndustry = None, indicators = None,
                       commonFactors = None\<rparr>,
      thresholds = [], modelVersion = ''1.0.0''\<rparr>"

record score_result =
  score :: jsnum
  riskLevel :: risk_level
  factors :: "factor list"
  confidence :: jsnum

text \<open>\<^verbatim>\<open>this.thresholds[k]\<close> where a number is expected.\<close>

definition threshold :: "FraudDetector \<Rightarrow> string \<Rightarrow> jsnum" where
  "threshold det k = to_number (get_prop (thresholds det) k)"

definition getRiskLevel :: "FraudDetector \<Rightarrow> jsnum \<Rightarrow> risk_level" where
  "getRiskLevel det sc =
     (if js_ge sc (threshold det ''highRiskMin'') then High
      else if js_ge sc (threshold det ''lowRiskMax'') then Medium
      else Low)"

definition calculateConfidence :: "FraudDetector \<Rightarrow> object \<Rightarrow> jsnum" where
  "calculateConfidence det features =
     (let featureCount =
            length (filter (\<lambda>k. get_prop features k \<noteq> Null \<and> get_prop features k \<noteq> Undefined)
                      (map fst features));
          expectedFeatures = Fin 10;
          dataCompleteness = js_min2 (js_div (Fin (real featureCount)) expectedFeatures) (Fin 1);
          baseConfidence = (if trained det then Fin (85 / 100) else Fin (70 / 100))
      in js_div (js_round (js_mul (js_mul baseConfidence dataCompleteness) (Fin 100))) (Fin 100))"

definition fnum :: "object \<Rightarrow> string \<Rightarrow> jsnum" where
  "fnum features k = to_number (get_prop features k)"

text \<open>\<^verbatim>\<open>score += contribution; factors.push({..., contribution, ...})\<close>\<close>

definition add_factor :: "jsnum \<times> factor list \<Rightarrow> factor \<Rightarrow> jsnum \<times> factor list" where
  "add_factor st f = (js_add (fst st) (contribution f), snd st @ [f])"

datatype js_error = TypeError | SyntaxError | ENOENT

text \<open>
  \<open>scoreHealthcareProvider\<close>, one definition for each \<^verbatim>\<open>if\<close> block of the source, in
  the source's order; each takes the running \<open>(score, factors)\<close> and returns it updated.
  The only operation that can throw is
  \<^verbatim>\<open>features.totalPharmaPayments.toLocaleString()\<close>, on \<^verbatim>\<open>null\<close>; it is reached when
  \<^verbatim>\<open>null > pharmaPaymentHigh\<close>, that is with a negative threshold.
\<close>

type_synonym tally = "jsnum \<times> factor list"

definition hc_complexity :: "FraudDetector \<Rightarrow> object \<Rightarrow> tally \<Rightarrow> tally" where
  "hc_complexity det features st =
     (if js_gt (fnum features ''highComplexityRatio'') (threshold det ''highComplexityRatio'')
      then (let c = js_round (js_mul (js_sub (fnum features ''highComplexityRatio'')
                                        (Fin (2 / 10))) (Fin 40))
            in add_factor st
                 \<lparr>ftype = ''HIGH_COMPLEXITY_BILLING'',
                  description =
                    [Shown (js_round (js_mul (fnum features ''highComplexityRatio'') (Fin 100))),
                     Lit ''% high complexity codes''],
                  contribution = c,
                  severity = (if js_gt c (Fin 15) then high else medium)\<rparr>)
      else st)"

definition hc_pharma :: "FraudDetector \<Rightarrow> object \<Rightarrow> tally \<Rightarrow> js_error + tally" where
  "hc_pharma det features st =
     (if js_gt (fnum features ''totalPharmaPayments'') (threshold det ''pharmaPaymentHigh'')
      then (let c = (if js_gt (fnum features ''totalPharmaPayments'')
                          (threshold det ''pharmaPaymentVeryHigh'')
                     then Fin 25 else Fin 15)
            in if get_prop features ''totalPharmaPayments'' = Null then Inl TypeError
               else Inr (add_factor st
                      \<lparr>ftype = ''HIGH_PHARMA_PAYMENTS'',
                       description =
                         [Lit ''$'', ToLocale (get_prop features ''totalPharmaPayments''),
                          Lit '' in pharmaceutical payments''],
                       contribution = c,
                       severity = (if js_gt c (Fin 15) then high else medium)\<rparr>))
      else Inr st)"

definition hc_concentration :: "object \<Rightarrow> tally \<Rightarrow> tally" where
  "hc_concentration features st =
     (if js_gt (fnum features ''pharmaConcentration'') (Fin (7 / 10))
      then add_factor st
             \<lparr>ftype = ''PHARMA_CONCENTRATION'',
              description =
                [Shown (js_round (js_mul (fnum features ''pharmaConcentration'') (Fin 100))),
                 Lit ''% payments from single company''],
              contribution = Fin 10, severity = medium\<rparr>
      else st)"

definition hc_exclusion :: "object \<Rightarrow> tally \<Rightarrow> tally" where
  "hc_exclusion features st =
     (if truthy (get_prop features ''hasExclusionHistory'')
      then add_factor st
             \<lparr>ftype = ''PRIOR_EXCLUSION'',
              description = [Lit ''Provider has prior exclusion history''],
              contribution = Fin 30, severity = high\<rparr>
      else st)"

definition hc_related :: "object \<Rightarrow> tally \<Rightarrow> tally" where
  "hc_related features st =
     (if truthy (get_prop features ''relatedPartyExcluded'')
      then add_factor st
             \<lparr>ftype = ''RELATED_PARTY_EXCLUDED'',
              description = [Lit ''Related party has been excluded''],
              contribution = Fin 20, severity = high\<rparr>
      else st)"

definition hc_volume :: "object \<Rightarrow> tally \<Rightarrow> tally" where
  "hc_volume features st =
     (if js_gt (fnum features ''avgServicesPerPatient'') (Fin 10)
      then add_factor st
             \<lparr>ftype = ''HIGH_SERVICE_VOLUME'',
              description =
                [ToFixed (get_prop features ''avgServicesPerPatient'') 1,
                 Lit '' services per patient (above average)''],
              contribution = Fin 15, severity = medium\<rparr>
      else st)"

definition scoreHealthcareProvider :: "FraudDetector \<Rightarrow> object \<Rightarrow> js_error + score_result" where
  "scoreHealthcareProvider det features =
     (case hc_pharma det features (hc_complexity det features (Fin 0, [])) of
        Inl e \<Rightarrow> Inl e
      | Inr st2 \<Rightarrow>
          (let st6 = hc_volume features (hc_related features (hc_exclusion features
                       (hc_concentration features st2)));
               sc = js_min2 (js_round (fst st6)) (Fin 100)
           in Inr \<lparr>score = sc, riskLevel = getRiskLevel det sc, factors = snd st6,
                    confidence = calculateConfidence det features\<rparr>))"

text \<open>\<open>defaultContractorScoring\<close>: the fixed rules, used while the model is untrained;
  again one definition for each \<^verbatim>\<open>if\<close> block.\<close>

definition rule_largeAward :: "object \<Rightarrow> tally \<Rightarrow> tally" where
  "rule_largeAward features st =
     (if js_gt (fnum features ''largeAwardRatio'') (Fin (3 / 10))
      then (let c = js_round (js_mul (fnum features ''largeAwardRatio'') (Fin 30))
            in add_factor st
                 \<lparr>ftype = ''LARGE_AWARD_CONCENTRATION'',
                  description =
                    [Shown (js_round (js_mul (fnum features ''largeAwardRatio'') (Fin 100))),
                     Lit ''% of awards significantly above average''],
                  contribution = c,
                  severity = (if js_gt c (Fin 15) then high else medium)\<rparr>)
      else st)"

definition rule_agency :: "object \<Rightarrow> tally \<Rightarrow> tally" where
  "rule_agency features st =
     (if js_gt (fnum features ''agencyConcentration'') (Fin (8 / 10))
      then add_factor st
             \<lparr>ftype = ''AGENCY_CONCENTRATION'',
              description =
                [Shown (js_round (js_mul (fnum features ''agencyConcentration'') (Fin 100))),
                 Lit ''% from single agency''],
              contribution = Fin 10, severity = low\<rparr>
      else st)"

definition rule_soleSource :: "object \<Rightarrow> tally \<Rightarrow> tally" where
  "rule_soleSource features st =
     (if js_gt (fnum features ''soleSourceRatio'') (Fin (5 / 10))
      then (let c = js_round (js_mul (fnum features ''soleSourceRatio'') (Fin 25))
            in add_factor st
                 \<lparr>ftype = ''HIGH_SOLE_SOURCE'',
                  description =
                    [Shown (js_round (js_mul (fnum features ''soleSourceRatio'') (Fin 100))),
                     Lit ''% sole source contracts''],
                  contribution = c, severity = medium\<rparr>)
      else st)"

definition rule_growth :: "object \<Rightarrow> tally \<Rightarrow> tally" where
  "rule_growth features st =
     (if js_gt (fnum features ''yearOverYearGrowth'') (Fin 2)
      then (let c = js_min2 (js_round (js_mul (js_sub (fnum features ''yearOverYearGrowth'')
                                                 (Fin 1)) (Fin 15))) (Fin 25)
            in add_factor st
                 \<lparr>ftype = ''RAPID_GROWTH'',
                  description =
                    [Shown (js_round (js_mul (fnum features ''yearOverYearGrowth'') (Fin 100))),
                     Lit ''% year-over-year growth''],
                  contribution = c,
                  severity = (if js_gt c (Fin 15) then high else medium)\<rparr>)
      else st)"

definition rule_highRisk :: "object \<Rightarrow> tally \<Rightarrow> tally" where
  "rule_highRisk features st =
     (if js_gt (fnum features ''highRiskCategoryRatio'') (Fin (3 / 10))
      then (let c = js_round (js_mul (fnum features ''highRiskCategoryRatio'') (Fin 20))
            in add_factor st
                 \<lparr>ftype = ''HIGH_RISK_CATEGORY'',
                  description =
                    [Shown (js_round (js_mul (fnum features ''highRiskCategoryRatio'') (Fin 100))),
                     Lit ''% in high-risk categories''],
                  contribution = c, severity = low\<rparr>)
      else st)"

definition rule_defense :: "object \<Rightarrow> tally \<Rightarrow> tally" where
  "rule_defense features st =
     (if js_gt (fnum features ''defenseRatio'') (Fin (7 / 10))
      then add_factor st
             \<lparr>ftype = ''DEFENSE_CONCENTRATION'',
              description =
                [Lit ''Primarily defense contracts (historically higher fraud rates)''],
              contribution = Fin 5, severity = low\<rparr>
      else st)"

definition defaultContractorScoring :: "FraudDetector \<Rightarrow> object \<Rightarrow> score_result" where
  "defaultContractorScoring det features =
     (let st6 = rule_defense features (rule_highRisk features (rule_growth features
                  (rule_soleSource features (rule_agency features
                     (rule_largeAward features (Fin 0, []))))));
          sc = js_min2 (js_round (fst st6)) (Fin 100)
      in \<lparr>score = sc, riskLevel = getRiskLevel det sc, factors = snd st6,
          confidence = Fin (7 / 10)\<rparr>)"

text \<open>
  \<open>detectAnomalies\<close>: the loop over \<^verbatim>\<open>Object.entries(features)\<close>, with the running
  \<open>totalScore\<close> and \<open>anomalies\<close>. An entry is skipped when its value is not a number or the
  profile has no entry under its key.
\<close>

fun detectAnomalies_loop ::
  "FraudDetector \<Rightarrow> object \<Rightarrow> jsnum \<times> factor list \<Rightarrow> jsnum \<times> factor list" where
  "detectAnomalies_loop det [] acc = acc"
| "detectAnomalies_loop det ((key, v) # rest) acc =
     (case v of
        Num x \<Rightarrow>
          (case map_of (featureStats det) key of
             None \<Rightarrow> detectAnomalies_loop det rest acc
           | Some st \<Rightarrow>
               (let zScore = js_div (js_sub x (to_number (st_mean st)))
                                (if truthy (st_std st) then to_number (st_std st) else Fin 1)
                in if js_gt (js_abs zScore)
                        (threshold det ''zScoreThreshold'')
                   then (let c = js_min2 (js_round (js_mul (js_abs zScore) (Fin 5))) (Fin 15)
                         in detectAnomalies_loop det rest
                              (add_factor acc
                                 \<lparr>ftype = ''STATISTICAL_ANOMALY'',
                                  description =
                                    [Lit key, Lit '': '', ToFixed (Num x) 2, Lit '' is '',
                                     ToFixed (Num zScore) 1, Lit '' std devs from mean''],
                                  contribution = c,
                                  severity = (if js_gt (js_abs zScore) (Fin 3) then high
                                              else medium)\<rparr>))
                   else detectAnomalies_loop det rest acc))
      | _ \<Rightarrow> detectAnomalies_loop det rest acc)"

definition detectAnomalies :: "FraudDetector \<Rightarrow> object \<Rightarrow> jsnum \<times> factor list" where
  "detectAnomalies det features = detectAnomalies_loop det features (Fin 0, [])"

text \<open>
  \<^verbatim>\<open>indicator.toLowerCase().replace(/\s+/g, '_')\<close>, on ASCII: the letters A to Z are
  lowered, and every maximal run of white space becomes one underscore.
\<close>

definition toLowerCase_char :: "char \<Rightarrow> char" where
  "toLowerCase_char c =
     (case map_of (zip ''ABCDEFGHIJKLMNOPQRSTUVWXYZ'' ''abcdefghijklmnopqrstuvwxyz'') c of
        None \<Rightarrow> c | Some d \<Rightarrow> d)"

definition toLowerCase :: "string \<Rightarrow> string" where
  "toLowerCase s = map toLowerCase_char s"

definition is_space :: "char \<Rightarrow> bool" where
  "is_space c = (c \<in> set [CHR '' '', CHR 0x09, CHR 0x0A, CHR 0x0B, CHR 0x0C, CHR 0x0D])"

function replace_spaces :: "string \<Rightarrow> string" where
  "replace_spaces [] = []"
| "replace_spaces (c # cs) =
     (if is_space c then CHR ''_'' # replace_spaces (dropWhile is_space cs)
      else c # replace_spaces cs)"
  by pat_completeness auto
termination
  by (relation "measure length") (auto simp: le_imp_less_Suc length_dropWhile_le)

text \<open>\<open>matchFraudPatterns\<close>: skipped when \<open>commonFactors\<close> is missing.\<close>

fun matchFraudPatterns_loop ::
  "object \<Rightarrow> common_factor list \<Rightarrow> jsnum \<times> factor list \<Rightarrow> jsnum \<times> factor list" where
  "matchFraudPatterns_loop features [] acc = acc"
| "matchFraudPatterns_loop features (f # rest) acc =
     (let indicatorKey = replace_spaces (toLowerCase (cf_indicator f))
      in if truthy (get_prop features indicatorKey)
            \<and> js_gt (fnum features indicatorKey) (Fin 0)
         then (let c = js_round (js_mul (to_number (cf_weight f)) (Fin 20))
               in matchFraudPatterns_loop features rest
                    (add_factor acc
                       \<lparr>ftype = ''FRAUD_PATTERN_MATCH'',
                        description =
                          [Lit ''Matches known fraud indicator: '', Lit (cf_indicator f)],
                        contribution = c,
                        severity = (if js_gt (to_number (cf_weight f)) (Fin (3 / 10)) then high
                                    else medium)\<rparr>))
         else matchFraudPatterns_loop features rest acc)"

definition matchFraudPatterns :: "FraudDetector \<Rightarrow> object \<Rightarrow> jsnum \<times> factor list" where
  "matchFraudPatterns det features =
     (case commonFactors (fraudPatterns det) of
        None \<Rightarrow> (Fin 0, [])
      | Some fs \<Rightarrow> matchFraudPatterns_loop features fs (Fin 0, []))"

definition applyContractorRules :: "object \<Rightarrow> jsnum \<times> factor list" where
  "applyContractorRules features = (Fin 0, [])"

text \<open>
  \<^verbatim>\<open>factors.sort((a, b) => b.contribution - a.contribution)\<close>: a stable sort, here by
  insertion. A comparator result that is NaN counts as 0, as the language has it. Where
  the comparator is consistent, every sort of the language returns this list.
\<close>

fun insert_factor :: "factor \<Rightarrow> factor list \<Rightarrow> factor list" where
  "insert_factor x [] = [x]"
| "insert_factor x (y # ys) =
     (if js_gt (js_sub (contribution y) (contribution x)) (Fin 0) then y # insert_factor x ys
      else x # y # ys)"

definition sort_factors :: "factor list \<Rightarrow> factor list" where
  "sort_factors fs = foldr insert_factor fs []"

text \<open>\<open>scoreContractor\<close>: the default rules while the model is untrained and has no
  profile, the anomaly and pattern strategies otherwise.\<close>

definition scoreContractor :: "FraudDetector \<Rightarrow> object \<Rightarrow> score_result" where
  "scoreContractor det features =
     (if \<not> trained det \<and> length (map fst (featureStats det)) = 0
      then defaultContractorScoring det features
      else
        (let anomalyScore = detectAnomalies det features;
             patternScore = matchFraudPatterns det features;
             ruleScore = applyContractorRules features;
             sc0 = js_add (js_add (js_add (Fin 0) (fst anomalyScore)) (fst patternScore))
                     (fst ruleScore);
             fs = snd anomalyScore @ snd patternScore @ snd ruleScore;
             sc = js_min2 (js_round sc0) (Fin 100)
         in \<lparr>score = sc, riskLevel = getRiskLevel det sc, factors = sort_factors fs,
             confidence = calculateConfidence det features\<rparr>))"

text \<open>\<open>optimizeThresholds\<close> ignores both arguments and returns the built-in table.\<close>

definition optimizeThresholds :: "'a \<Rightarrow> 'b \<Rightarrow> object" where
  "optimizeThresholds trainingData knownFraudCases =
     [(''largeAwardMultiple'', Num (Fin 3)),
      (''growthRateAnomaly'', Num (Fin 2)),
      (''agencyConcentration'', Num (Fin (8 / 10))),
      (''soleSourceRatio'', Num (Fin (5 / 10))),
      (''billingZScore'', Num (Fin 2)),
      (''highComplexityRatio'', Num (Fin (4 / 10))),
      (''pharmaPaymentHigh'', Num (Fin 50000)),
      (''pharmaPaymentVeryHigh'', Num (Fin 100000)),
      (''lowRiskMax'', Num (Fin 25)),
      (''mediumRiskMax'', Num (Fin 50)),
      (''highRiskMin'', Num (Fin 50)),
      (''zScoreThreshold'', Num (Fin (25 / 10))),
      (''isolationThreshold'', Num (Fin (6 / 10)))]"

section \<open>The feature extractors\<close>

text \<open>
  A raw award, as the spending API returns it. \<open>Award_Amount\<close> holds the number that
  \<^verbatim>\<open>parseFloat(a['Award Amount'])\<close> reads: NaN when the field is missing or unreadable.
  The other fields are strings that may be missing. Dates, agency names and descriptions
  are ASCII, and no key of an object built from them names an inherited property of
  objects.
\<close>

record award =
  Award_Amount :: jsnum
  Awarding_Agency :: "string option"
  Start_Date :: "string option"
  Description :: "string option"

text \<open>\<^verbatim>\<open>s || d\<close> on strings that may be missing: the empty string is falsy.\<close>

definition str_or :: "string option \<Rightarrow> string \<Rightarrow> string" where
  "str_or s d = (case s of None \<Rightarrow> d | Some x \<Rightarrow> if x = [] then d else x)"

text \<open>\<^verbatim>\<open>s.includes(kw)\<close>\<close>

fun str_includes :: "string \<Rightarrow> string \<Rightarrow> bool" where
  "str_includes [] kw = (kw = [])"
| "str_includes (c # cs) kw = (take (length kw) (c # cs) = kw \<or> str_includes cs kw)"

definition js_sum :: "jsnum list \<Rightarrow> jsnum" where
  "js_sum xs = foldl js_add (Fin 0) xs"

definition js_pow2 :: "jsnum \<Rightarrow> jsnum" where
  "js_pow2 x = js_mul x x"

definition calculateStdDev :: "jsnum list \<Rightarrow> jsnum" where
  "calculateStdDev values =
     (let n = length values
      in if n = 0 then Fin 0
         else (let mean = js_div (js_sum values) (Fin (real n));
                   squareDiffs = map (\<lambda>v. js_pow2 (js_sub v mean)) values
               in js_sqrt (js_div (js_sum squareDiffs) (Fin (real n)))))"

text \<open>An object with number values, as \<open>agencyCounts\<close> and \<open>byYear\<close>: a new key goes to
  the end, an old one keeps its place.\<close>

definition num_prop :: "(string \<times> jsnum) list \<Rightarrow> string \<Rightarrow> jsnum" where
  "num_prop obj k = (case map_of obj k of None \<Rightarrow> NaN | Some v \<Rightarrow> v)"

definition groupByYear :: "award list \<Rightarrow> (string \<times> jsnum) list" where
  "groupByYear items =
     foldl (\<lambda>byYear item.
              case Start_Date item of
                None \<Rightarrow> byYear
              | Some date \<Rightarrow>
                  if date = [] then byYear
                  else (let year = take 4 date
                        in AList.update year
                             (js_add (or_else (num_prop byYear year) (Fin 0))
                                     (or_else (Award_Amount item) (Fin 0)))
                             byYear))
       [] items"

definition calculateGrowthRate :: "(string \<times> jsnum) list \<Rightarrow> jsnum" where
  "calculateGrowthRate byYear =
     (let years = sort (map fst byYear)
      in if length years < 2 then Fin 0
         else (let lastYear = or_else (num_prop byYear (years ! (length years - 1))) (Fin 0);
                   prevYear = or_else (num_prop byYear (years ! (length years - 2))) (Fin 1)
               in js_div lastYear prevYear))"

definition count_agencies :: "award list \<Rightarrow> (string \<times> jsnum) list" where
  "count_agencies awards =
     foldl (\<lambda>agencyCounts a.
              (let agency = str_or (Awarding_Agency a) ''Unknown''
               in AList.update agency
                    (js_add (or_else (num_prop agencyCounts agency) (Fin 0)) (Fin 1))
                    agencyCounts))
       [] awards"

definition is_sole_source :: "award \<Rightarrow> bool" where
  "is_sole_source a = str_includes (toLowerCase (str_or (Description a) [])) ''sole source''"

definition is_defense :: "award \<Rightarrow> bool" where
  "is_defense a =
     (let agency = toLowerCase (str_or (Awarding_Agency a) [])
      in str_includes agency ''defense'' \<or> str_includes agency ''army''
         \<or> str_includes agency ''navy'' \<or> str_includes agency ''air force'')"

definition ratio :: "nat \<Rightarrow> nat \<Rightarrow> jsnum" where
  "ratio n d = js_div (Fin (real n)) (Fin (real d))"

text \<open>\<open>extractContractorFeatures\<close> (feature-extractor.js); the \<open>contractor\<close> argument is
  not read.\<close>

definition extractContractorFeatures :: "'c \<Rightarrow> award list \<Rightarrow> object" where
  "extractContractorFeatures contractor awards =
     (let amounts = map (\<lambda>a. or_else (Award_Amount a) (Fin 0)) awards;
          totalAwarded = js_sum amounts;
          avgAward = or_else (js_div totalAwarded (Fin (real (length amounts)))) (Fin 0);
          awardShares = map (\<lambda>a. js_div a totalAwarded) amounts;
          agencyCounts = count_agencies awards;
          maxAgencyShare = js_div (Math_max (map snd agencyCounts)) (Fin (real (length awards)));
          awardsByYear = groupByYear awards;
          highRiskKeywords = [''consulting'', ''advisory'', ''professional services'',
                              ''it services'', ''software'', ''support'', ''emergency''];
          largeAwardThreshold = js_mul avgAward (Fin 3)
      in [(''totalAwarded'', Num totalAwarded),
          (''avgAward'', Num avgAward),
          (''awardCount'', Num (Fin (real (length awards)))),
          (''maxAward'', Num (Math_max amounts)),
          (''minAward'', Num (Math_min amounts)),
          (''awardStdDev'', Num (calculateStdDev amounts)),
          (''concentrationIndex'',
             Num (foldl (\<lambda>sum s. js_add sum (js_mul s s)) (Fin 0) awardShares)),
          (''agencyConcentration'', Num maxAgencyShare),
          (''yearOverYearGrowth'', Num (calculateGrowthRate awardsByYear)),
          (''soleSourceRatio'', Num (ratio (length (filter is_sole_source awards)) (length awards))),
          (''highRiskCategoryRatio'',
             Num (ratio (length (filter (\<lambda>a. list_ex (str_includes (toLowerCase
                                     (str_or (Description a) []))) highRiskKeywords) awards))
                        (length awards))),
          (''defenseRatio'', Num (ratio (length (filter is_defense awards)) (length awards))),
          (''largeAwardRatio'',
             Num (ratio (length (filter (\<lambda>a. js_gt a largeAwardThreshold) amounts))
                        (length amounts)))])"

text \<open>
  The records of a healthcare provider. \<open>b_amount\<close> and \<open>p_amount\<close> are the amounts as
  numbers, NaN when missing; \<open>None\<close> for the billing or the payment list stands for a
  missing argument.
\<close>

record billing =
  b_amount :: jsnum
  b_code :: "string option"
  b_serviceType :: "string option"
  b_patientId :: "string option"

record payment =
  p_amount :: jsnum
  p_company :: "string option"
  p_type :: "string option"

record provider =
  excludedPreviously :: bool
  relatedPartyExcluded :: bool

text \<open>\<^verbatim>\<open>parseInt\<close> of one character.\<close>

definition parseInt_char :: "char \<Rightarrow> jsnum" where
  "parseInt_char c =
     (case map_of (zip ''0123456789'' (map real [0 ..< 10])) c of
        None \<Rightarrow> NaN | Some n \<Rightarrow> Fin n)"

text \<open>\<open>getCodeComplexity\<close>: the two patterns match anywhere in the code, and the level
  is read from the fifth character of the code.\<close>

definition getCodeComplexity :: "string option \<Rightarrow> jsnum" where
  "getCodeComplexity code =
     (case code of
        None \<Rightarrow> Fin 1
      | Some codeStr \<Rightarrow>
          if codeStr = [] then Fin 1
          else if list_ex (\<lambda>d. str_includes codeStr (''9920'' @ [d])) ''12345''
          then parseInt_char (codeStr ! 4)
          else if list_ex (\<lambda>d. str_includes codeStr (''9921'' @ [d])) ''12345''
          then parseInt_char (codeStr ! 4)
          else Fin 3)"

definition sum_by_company :: "payment list \<Rightarrow> (string \<times> jsnum) list" where
  "sum_by_company openPayments =
     foldl (\<lambda>paymentsByCompany p.
              (let company = (case p_company p of None \<Rightarrow> ''undefined'' | Some c \<Rightarrow> c)
               in AList.update company
                    (js_add (or_else (num_prop paymentsByCompany company) (Fin 0)) (p_amount p))
                    paymentsByCompany))
       [] openPayments"

definition billing_features :: "billing list \<Rightarrow> object" where
  "billing_features billingData =
     (let totalBilled = foldl (\<lambda>sum b. js_add sum (or_else (b_amount b) (Fin 0))) (Fin 0)
                          billingData;
          codeLevels = map (\<lambda>b. getCodeComplexity (b_code b)) billingData;
          avgComplexity = js_div (js_sum codeLevels) (Fin (real (length codeLevels)))
      in [(''totalBilled'', Num totalBilled),
          (''avgClaim'', Num (js_div totalBilled (Fin (real (length billingData))))),
          (''claimCount'', Num (Fin (real (length billingData)))),
          (''avgCodeComplexity'', Num avgComplexity),
          (''highComplexityRatio'',
             Num (ratio (length (filter (\<lambda>c. js_ge c (Fin 4)) codeLevels)) (length codeLevels))),
          (''uniqueServiceTypes'',
             Num (Fin (real (length (remdups (map b_serviceType billingData)))))),
          (''avgServicesPerPatient'',
             Num (js_div (Fin (real (length billingData)))
                    (or_else (Fin (real (length (remdups (map b_patientId billingData)))))
                       (Fin 1))))])"

definition payment_features :: "payment list \<Rightarrow> object" where
  "payment_features openPayments =
     (let totalPayments = foldl (\<lambda>sum p. js_add sum (or_else (p_amount p) (Fin 0))) (Fin 0)
                            openPayments;
          paymentsByCompany = sum_by_company openPayments;
          maxCompanyShare = js_div (Math_max (map snd paymentsByCompany)) totalPayments
      in [(''totalPharmaPayments'', Num totalPayments),
          (''pharmaPaymentCount'', Num (Fin (real (length openPayments)))),
          (''uniquePharmaCompanies'',
             Num (Fin (real (length (remdups (map p_company openPayments)))))),
          (''pharmaConcentration'', Num (or_else maxCompanyShare (Fin 0))),
          (''consultingPaymentRatio'',
             Num (ratio (length (filter (\<lambda>p. str_includes (toLowerCase (str_or (p_type p) []))
                                               ''consulting''
                                           \<or> str_includes (toLowerCase (str_or (p_type p) []))
                                               ''speaking'') openPayments))
                        (length openPayments)))])"

definition extractHealthcareFeatures ::
  "provider \<Rightarrow> billing list option \<Rightarrow> payment list option \<Rightarrow> object" where
  "extractHealthcareFeatures prov billingData openPayments =
     (case billingData of None \<Rightarrow> [] | Some bs \<Rightarrow> billing_features bs)
     @ (case openPayments of None \<Rightarrow> [] | Some ps \<Rightarrow> payment_features ps)
     @ [(''hasExclusionHistory'', Num (if excludedPreviously prov then Fin 1 else Fin 0)),
        (''relatedPartyExcluded'', Num (if relatedPartyExcluded prov then Fin 1 else Fin 0))]"

text \<open>\<open>extractFeatures\<close> of the scoring route (route.js): \<open>None\<close> stands for a missing
  \<open>contracts\<close>.\<close>

definition is_healthcare :: "award \<Rightarrow> bool" where
  "is_healthcare c =
     (let agency = toLowerCase (str_or (Awarding_Agency c) []);
          desc = toLowerCase (str_or (Description c) [])
      in str_includes agency ''health'' \<or> str_includes desc ''health'' \<or> str_includes desc ''medical'')"

definition route_growthRate :: "(string \<times> jsnum) list \<Rightarrow> jsnum" where
  "route_growthRate byYear =
     (let years = sort (map fst byYear)
      in if length years \<ge> 2
         then (let lastYear = or_else (num_prop byYear (years ! (length years - 1))) (Fin 0);
                   prevYear = or_else (num_prop byYear (years ! (length years - 2))) (Fin 1)
               in js_div lastYear prevYear)
         else Fin 1)"

definition extractFeatures :: "award list option \<Rightarrow> object" where
  "extractFeatures contracts_opt =
     (case contracts_opt of
        None \<Rightarrow> []
      | Some contracts \<Rightarrow>
          if length contracts = 0 then []
          else
           (let amounts = map (\<lambda>c. or_else (Award_Amount c) (Fin 0)) contracts;
                totalAwarded = js_sum amounts;
                avgAward = js_div totalAwarded (Fin (real (length amounts)));
                agencyCounts = count_agencies contracts;
                maxAgencyShare =
                  js_div (Math_max (map snd agencyCounts)) (Fin (real (length contracts)));
                byYear = groupByYear contracts;
                growthRate = route_growthRate byYear;
                highRiskKeywords = [''consulting'', ''advisory'', ''professional services'',
                                    ''it services'', ''software'', ''support'', ''sole source''];
                highRiskCount =
                  length (filter (\<lambda>c. list_ex (str_includes (toLowerCase
                                     (str_or (Description c) []))) highRiskKeywords) contracts);
                defenseCount = length (filter is_defense contracts);
                healthcareCount = length (filter is_healthcare contracts);
                largeAwardThreshold = js_mul avgAward (Fin 3);
                largeAwardCount = length (filter (\<lambda>a. js_gt a largeAwardThreshold) amounts)
            in [(''totalAwarded'', Num totalAwarded),
                (''avgAward'', Num avgAward),
                (''awardCount'', Num (Fin (real (length contracts)))),
                (''agencyConcentration'', Num maxAgencyShare),
                (''yearOverYearGrowth'', Num growthRate),
                (''highRiskCategoryRatio'', Num (ratio highRiskCount (length contracts))),
                (''defenseRatio'', Num (ratio defenseCount (length contracts))),
                (''healthcareRatio'', Num (ratio healthcareCount (length contracts))),
                (''largeAwardRatio'', Num (ratio largeAwardCount (length contracts))),
                (''soleSourceRatio'',
                   Num (ratio (length (filter is_sole_source contracts)) (length contracts)))]))"

section \<open>Training, saving and loading\<close>

text \<open>
  A record of the training corpus (its \<open>features\<close> may be missing) and a known fraud
  case. \<open>fc_amount\<close> is the amount as a number, NaN when missing.
\<close>

record training_record =
  tr_features :: "object option"

record fraud_case =
  fc_fraud_type :: "string list option"
  fc_amount :: jsnum
  fc_industry :: "string option"
  fc_indicators :: "string list option"

text \<open>
  \<^verbatim>\<open>[...values].sort((a, b) => a - b)\<close>: a stable sort, here by insertion; a comparator
  result that is NaN counts as 0. Where no value is NaN every sort of the language
  returns this list.
\<close>

fun insert_number :: "jsnum \<Rightarrow> jsnum list \<Rightarrow> jsnum list" where
  "insert_number x [] = [x]"
| "insert_number x (y # ys) =
     (if js_gt (js_sub x y) (Fin 0) then y # insert_number x ys else x # y # ys)"

definition sort_numbers :: "jsnum list \<Rightarrow> jsnum list" where
  "sort_numbers xs = foldr insert_number xs []"

definition collect_values :: "training_record list \<Rightarrow> (string \<times> jsnum list) list" where
  "collect_values data =
     foldl (\<lambda>featureValues r.
              case tr_features r of
                None \<Rightarrow> featureValues
              | Some fs \<Rightarrow>
                  foldl (\<lambda>fv e.
                           case snd e of
                             Num x \<Rightarrow>
                               AList.update (fst e)
                                 ((case map_of fv (fst e) of None \<Rightarrow> [] | Some vs \<Rightarrow> vs) @ [x]) fv
                           | _ \<Rightarrow> fv)
                    featureValues fs)
       [] data"

definition stats_of :: "jsnum list \<Rightarrow> stats" where
  "stats_of values =
     (let n = length values;
          mean = js_div (js_sum values) (Fin (real n));
          variance = js_div (foldl (\<lambda>sum v. js_add sum (js_pow2 (js_sub v mean))) (Fin 0) values)
                       (Fin (real n));
          std = js_sqrt variance;
          sorted = sort_numbers values
      in \<lparr>st_mean = Num mean, st_std = Num std,
          st_min = Num (sorted ! 0),
          st_max = Num (sorted ! (n - 1)),
          st_median = Num (sorted ! nat \<lfloor>real n / 2\<rfloor>),
          st_p25 = Num (sorted ! nat \<lfloor>real n * (25 / 100)\<rfloor>),
          st_p75 = Num (sorted ! nat \<lfloor>real n * (75 / 100)\<rfloor>),
          st_p90 = Num (sorted ! nat \<lfloor>real n * (90 / 100)\<rfloor>),
          st_p95 = Num (sorted ! nat \<lfloor>real n * (95 / 100)\<rfloor>),
          st_count = Num (Fin (real n))\<rparr>)"

definition calculateFeatureStats :: "training_record list \<Rightarrow> (string \<times> stats) list" where
  "calculateFeatureStats data = map (\<lambda>e. (fst e, stats_of (snd e))) (collect_values data)"

definition count_fraud_type ::
  "jsnum \<Rightarrow> (string \<times> fraud_type_entry) list \<Rightarrow> string \<Rightarrow> (string \<times> fraud_type_entry) list"
  where
  "count_fraud_type amount byType ft =
     (let e = (case map_of byType ft of
                 None \<Rightarrow> \<lparr>ft_count = Num (Fin 0), ft_totalAmount = Num (Fin 0),
                           ft_avgAmount = Num (Fin 0), ft_indicators = []\<rparr>
               | Some e \<Rightarrow> e)
      in AList.update ft
           (e\<lparr>ft_count := Num (js_add (to_number (ft_count e)) (Fin 1)),
              ft_totalAmount :=
                Num (js_add (to_number (ft_totalAmount e)) (or_else amount (Fin 0)))\<rparr>)
           byType)"

definition count_industry ::
  "jsnum \<Rightarrow> (string \<times> industry_entry) list \<Rightarrow> string \<Rightarrow> (string \<times> industry_entry) list"
  where
  "count_industry amount byInd industry =
     (let e = (case map_of byInd industry of
                 None \<Rightarrow> \<lparr>in_count = Num (Fin 0), in_totalAmount = Num (Fin 0),
                           in_fraudTypes = []\<rparr>
               | Some e \<Rightarrow> e)
      in AList.update industry
           (e\<lparr>in_count := Num (js_add (to_number (in_count e)) (Fin 1)),
              in_totalAmount :=
                Num (js_add (to_number (in_totalAmount e)) (or_else amount (Fin 0)))\<rparr>)
           byInd)"

definition count_indicator :: "object \<Rightarrow> string \<Rightarrow> object" where
  "count_indicator inds ind =
     AList.update ind
       (Num (js_add (if truthy (get_prop inds ind) then to_number (get_prop inds ind) else Fin 0)
               (Fin 1)))
       inds"

text \<open>\<^verbatim>\<open>Object.entries(indicators).sort((a, b) => b[1] - a[1])\<close>, stable.\<close>

fun insert_entry :: "string \<times> jsval \<Rightarrow> (string \<times> jsval) list \<Rightarrow> (string \<times> jsval) list" where
  "insert_entry x [] = [x]"
| "insert_entry x (y # ys) =
     (if js_gt (js_sub (to_number (snd y)) (to_number (snd x))) (Fin 0) then y # insert_entry x ys
      else x # y # ys)"

definition learnFraudPatterns :: "fraud_case list \<Rightarrow> fraud_patterns" where
  "learnFraudPatterns knownFraudCases =
     (let counted =
            foldl (\<lambda>(byType, byInd, inds) fc.
                     (foldl (count_fraud_type (fc_amount fc)) byType
                        (case fc_fraud_type fc of None \<Rightarrow> [] | Some fts \<Rightarrow> fts),
                      count_industry (fc_amount fc) byInd (str_or (fc_industry fc) ''unknown''),
                      foldl count_indicator inds
                        (case fc_indicators fc of None \<Rightarrow> [] | Some is \<Rightarrow> is)))
              ([], [], []) knownFraudCases;
          byType = map (\<lambda>(ft, e). (ft, e\<lparr>ft_avgAmount :=
                          Num (js_div (to_number (ft_totalAmount e)) (to_number (ft_count e)))\<rparr>))
                     (fst counted);
          inds = snd (snd counted)
      in \<lparr>byFraudType = Some byType,
          byIndustry = Some (fst (snd counted)),
          indicators = Some inds,
          commonFactors =
            Some (map (\<lambda>(indicator, c).
                         \<lparr>cf_indicator = indicator, cf_count = c,
                          cf_weight = Num (js_div (to_number c)
                                             (Fin (real (length knownFraudCases))))\<rparr>)
                    (take 20 (foldr insert_entry inds [])))\<rparr>)"

record train_report =
  featureCount :: nat
  fraudPatternCount :: nat
  report_thresholds :: object

definition train ::
  "FraudDetector \<Rightarrow> training_record list \<Rightarrow> fraud_case list \<Rightarrow> FraudDetector \<times> train_report"
  where
  "train det trainingData knownFraudCases =
     (let det' = det\<lparr>featureStats := calculateFeatureStats trainingData,
                     fraudPatterns := learnFraudPatterns knownFraudCases,
                     thresholds := optimizeThresholds trainingData knownFraudCases,
                     trained := True\<rparr>
      in (det', \<lparr>featureCount = length (map fst (featureStats det')),
                  fraudPatternCount = 4,
                  report_thresholds = thresholds det'\<rparr>))"

text \<open>
  The file system maps a path to the content of the file there. A file holds either the
  JSON text of a model document or a text that \<^verbatim>\<open>JSON.parse\<close> rejects. The document is
  kept as the value that \<^verbatim>\<open>JSON.parse\<close> reads back: \<^verbatim>\<open>JSON.stringify\<close> writes
  \<^verbatim>\<open>null\<close> for NaN and for the infinities and leaves out a property whose value is
  \<^verbatim>\<open>undefined\<close>; every other number is read back as it was written.
\<close>

record model_file =
  mf_version :: string
  mf_trained :: bool
  mf_featureStats :: "(string \<times> stats) list"
  mf_fraudPatterns :: fraud_patterns
  mf_thresholds :: object
  mf_savedAt :: string

datatype file_content = Unparseable string | Json model_file

type_synonym file_system = "string \<Rightarrow> file_content option"

fun json_val :: "jsval \<Rightarrow> jsval" where
  "json_val (Num (Fin a)) = Num (Fin a)"
| "json_val (Num _) = Null"
| "json_val v = v"

definition json_object :: "object \<Rightarrow> object" where
  "json_object obj = map (\<lambda>e. (fst e, json_val (snd e))) (filter (\<lambda>e. snd e \<noteq> Undefined) obj)"

definition json_stats :: "stats \<Rightarrow> stats" where
  "json_stats s =
     \<lparr>st_mean = json_val (st_mean s), st_std = json_val (st_std s),
      st_min = json_val (st_min s), st_max = json_val (st_max s),
      st_median = json_val (st_median s), st_p25 = json_val (st_p25 s),
      st_p75 = json_val (st_p75 s), st_p90 = json_val (st_p90 s),
      st_p95 = json_val (st_p95 s), st_count = json_val (st_count s)\<rparr>"

definition json_fraud_type :: "fraud_type_entry \<Rightarrow> fraud_type_entry" where
  "json_fraud_type e =
     \<lparr>ft_count = json_val (ft_count e), ft_totalAmount = json_val (ft_totalAmount e),
      ft_avgAmount = json_val (ft_avgAmount e), ft_indicators = json_object (ft_indicators e)\<rparr>"

definition json_industry :: "industry_entry \<Rightarrow> industry_entry" where
  "json_industry e =
     \<lparr>in_count = json_val (in_count e), in_totalAmount = json_val (in_totalAmount e),
      in_fraudTypes = json_object (in_fraudTypes e)\<rparr>"

definition json_factor :: "common_factor \<Rightarrow> common_factor" where
  "json_factor f =
     \<lparr>cf_indicator = cf_indicator f, cf_count = json_val (cf_count f),
      cf_weight = json_val (cf_weight f)\<rparr>"

definition json_patterns :: "fraud_patterns \<Rightarrow> fraud_patterns" where
  "json_patterns p =
     \<lparr>byFraudType = map_option (map (\<lambda>e. (fst e, json_fraud_type (snd e)))) (byFraudType p),
      byIndustry = map_option (map (\<lambda>e. (fst e, json_industry (snd e)))) (byIndustry p),
      indicators = map_option json_object (indicators p),
      commonFactors = map_option (map json_factor) (commonFactors p)\<rparr>"

text \<open>\<open>save\<close>: \<open>now\<close> is the time stamp \<^verbatim>\<open>new Date().toISOString()\<close>; the write itself
  is taken to succeed.\<close>

definition save :: "FraudDetector \<Rightarrow> string \<Rightarrow> string \<Rightarrow> file_system \<Rightarrow> file_system" where
  "save det filepath now fs =
     fs(filepath \<mapsto>
        Json \<lparr>mf_version = modelVersion det, mf_trained = trained det,
              mf_featureStats = map (\<lambda>e. (fst e, json_stats (snd e))) (featureStats det),
              mf_fraudPatterns = json_patterns (fraudPatterns det),
              mf_thresholds = json_object (thresholds det),
              mf_savedAt = now\<rparr>)"

text \<open>\<open>load\<close>: a missing file makes \<^verbatim>\<open>fs.readFile\<close> throw and an unparseable one
  \<^verbatim>\<open>JSON.parse\<close>; nothing catches either, and the detector is assigned only after both.\<close>

definition load :: "FraudDetector \<Rightarrow> string \<Rightarrow> file_system \<Rightarrow> js_error + FraudDetector" where
  "load det filepath fs =
     (case fs filepath of
        None \<Rightarrow> Inl ENOENT
      | Some (Unparseable t) \<Rightarrow> Inl SyntaxError
      | Some (Json d) \<Rightarrow>
          Inr (det\<lparr>modelVersion := mf_version d, trained := mf_trained d,
                    featureStats := mf_featureStats d, fraudPatterns := mf_fraudPatterns d,
                    thresholds := mf_thresholds d\<rparr>))"

text \<open>
  \<open>loadModel\<close> of the scoring route: \<open>cache\<close> is the module variable \<open>modelData\<close>; the
  result is the new cache and the model returned, \<open>None\<close> for \<^verbatim>\<open>null\<close>. Both failures
  are caught.
\<close>

definition MODEL_PATH :: string where
  "MODEL_PATH = ''src/ml/models/fraud-detector-trained.json''"

definition loadModel :: "model_file option \<Rightarrow> file_system \<Rightarrow> model_file option \<times> model_file option"
  where
  "loadModel cache fs =
     (case cache of
        Some m \<Rightarrow> (cache, Some m)
      | None \<Rightarrow>
          (case fs MODEL_PATH of
             Some (Json d) \<Rightarrow> (Some d, Some d)
           | _ \<Rightarrow> (None, None)))"

text \<open>
  \<open>scoreContractor\<close> of the scoring route (route.js), which takes the loaded model or
  \<^verbatim>\<open>null\<close>; named \<open>route_scoreContractor\<close> here. Without a model it uses the built-in
  table \<open>route_default_thresholds\<close>.
\<close>

definition route_default_thresholds :: object where
  "route_default_thresholds =
     [(''largeAwardMultiple'', Num (Fin 3)),
      (''growthRateAnomaly'', Num (Fin 2)),
      (''agencyConcentration'', Num (Fin (8 / 10))),
      (''soleSourceRatio'', Num (Fin (5 / 10))),
      (''lowRiskMax'', Num (Fin 25)),
      (''mediumRiskMax'', Num (Fin 50)),
      (''highRiskMin'', Num (Fin 50))]"

record route_result =
  r_score :: jsnum
  r_riskLevel :: risk_level
  r_factors :: "factor list"
  r_modelVersion :: string
  r_confidence :: jsnum

definition route_agency :: "object \<Rightarrow> object \<Rightarrow> tally \<Rightarrow> tally" where
  "route_agency table features st =
     (if js_gt (fnum features ''agencyConcentration'') (fnum table ''agencyConcentration'')
      then add_factor st
             \<lparr>ftype = ''AGENCY_CONCENTRATION'',
              description =
                [Shown (js_round (js_mul (fnum features ''agencyConcentration'') (Fin 100))),
                 Lit ''% from single agency''],
              contribution = Fin 10, severity = low\<rparr>
      else st)"

definition route_soleSource :: "object \<Rightarrow> object \<Rightarrow> tally \<Rightarrow> tally" where
  "route_soleSource table features st =
     (if js_gt (fnum features ''soleSourceRatio'') (fnum table ''soleSourceRatio'')
      then (let c = js_round (js_mul (fnum features ''soleSourceRatio'') (Fin 25))
            in add_factor st
                 \<lparr>ftype = ''HIGH_SOLE_SOURCE'',
                  description =
                    [Shown (js_round (js_mul (fnum features ''soleSourceRatio'') (Fin 100))),
                     Lit ''% sole source contracts''],
                  contribution = c, severity = medium\<rparr>)
      else st)"

definition route_growth :: "object \<Rightarrow> object \<Rightarrow> tally \<Rightarrow> tally" where
  "route_growth table features st =
     (if js_gt (fnum features ''yearOverYearGrowth'') (fnum table ''growthRateAnomaly'')
      then (let c = js_min2 (js_round (js_mul (js_sub (fnum features ''yearOverYearGrowth'')
                                                 (Fin 1)) (Fin 15))) (Fin 25)
            in add_factor st
                 \<lparr>ftype = ''RAPID_GROWTH'',
                  description =
                    [Shown (js_round (js_mul (fnum features ''yearOverYearGrowth'') (Fin 100))),
                     Lit ''% year-over-year growth''],
                  contribution = c,
                  severity = (if js_gt c (Fin 15) then high else medium)\<rparr>)
      else st)"

definition route_highRisk :: "object \<Rightarrow> tally \<Rightarrow> tally" where
  "route_highRisk features st =
     (if js_gt (fnum features ''highRiskCategoryRatio'') (Fin (3 / 10))
      then (let c = js_round (js_mul (fnum features ''highRiskCategoryRatio'') (Fin 20))
            in add_factor st
                 \<lparr>ftype = ''HIGH_RISK_CATEGORY'',
                  description =
                    [Shown (js_round (js_mul (fnum features ''highRiskCategoryRatio'') (Fin 100))),
                     Lit ''% in high-risk categories (consulting, IT, etc.)''],
                  contribution = c, severity = medium\<rparr>)
      else st)"

definition route_healthcare :: "object \<Rightarrow> tally \<Rightarrow> tally" where
  "route_healthcare features st =
     (if js_gt (fnum features ''healthcareRatio'') (Fin (5 / 10))
      then add_factor st
             \<lparr>ftype = ''HEALTHCARE_CONCENTRATION'',
              description = [Lit ''Significant healthcare contracts (subject to FCA)''],
              contribution = Fin 10, severity = medium\<rparr>
      else st)"

fun route_patterns :: "object \<Rightarrow> common_factor list \<Rightarrow> tally \<Rightarrow> tally" where
  "route_patterns features [] st = st"
| "route_patterns features (f # rest) st =
     (let featureKey = replace_spaces (toLowerCase (cf_indicator f))
      in if truthy (get_prop features featureKey)
            \<and> js_gt (fnum features featureKey) (Fin (5 / 10))
         then (let c = js_round (js_mul (to_number (cf_weight f)) (Fin 15))
               in route_patterns features rest
                    (add_factor st
                       \<lparr>ftype = ''PATTERN_MATCH'',
                        description =
                          [Lit ''Matches known fraud pattern: '', Lit (cf_indicator f)],
                        contribution = c,
                        severity = (if js_gt (to_number (cf_weight f)) (Fin (3 / 10)) then high
                                    else medium)\<rparr>))
         else route_patterns features rest st)"

definition route_scoreContractor :: "object \<Rightarrow> model_file option \<Rightarrow> route_result" where
  "route_scoreContractor features model =
     (let table = (case model of None \<Rightarrow> route_default_thresholds | Some m \<Rightarrow> mf_thresholds m);
          st7 = route_healthcare features (rule_defense features (route_highRisk features
                  (route_growth table features (route_soleSource table features
                     (route_agency table features (rule_largeAward features (Fin 0, [])))))));
          st8 = (case model of
                   None \<Rightarrow> st7
                 | Some m \<Rightarrow>
                     (case commonFactors (mf_fraudPatterns m) of
                        None \<Rightarrow> st7
                      | Some fs \<Rightarrow> route_patterns features (take 5 fs) st7));
          sc = js_min2 (js_round (fst st8)) (Fin 100)
      in \<lparr>r_score = sc,
          r_riskLevel = (if js_ge sc (fnum table ''highRiskMin'') then High
                         else if js_ge sc (fnum table ''lowRiskMax'') then Medium else Low),
          r_factors = sort_factors (snd st8),
          r_modelVersion = (case model of None \<Rightarrow> ''default''
                            | Some m \<Rightarrow> if mf_version m = [] then ''default'' else mf_version m),
          r_confidence = (case model of None \<Rightarrow> Fin (70 / 100)
                          | Some m \<Rightarrow> if mf_trained m then Fin (85 / 100) else Fin (70 / 100))\<rparr>)"

section \<open>The specification's words and the predicates of the statements\<close>

text \<open>A running score that has only received non-negative whole contributions (an
  infinite feature value gives an infinite contribution).\<close>

fun nni :: "jsnum \<Rightarrow> bool" where
  "nni (Fin a) = (0 \<le> a \<and> of_int \<lfloor>a\<rfloor> = a)"
| "nni PInf = True"
| "nni _ = False"

text \<open>Every learned pattern weight is a number that is not negative, as
  \<open>learnFraudPatterns\<close> computes it (a count divided by the number of cases).\<close>

definition weights_ok :: "FraudDetector \<Rightarrow> bool" where
  "weights_ok det =
     (case commonFactors (fraudPatterns det) of
        None \<Rightarrow> True
      | Some fs \<Rightarrow> list_all (\<lambda>f. js_ge (to_number (cf_weight f)) (Fin 0)) fs)"

text \<open>The risk level the threshold table in effect gives a score: High from
  \<open>highRiskMin\<close> up, else Medium from \<open>lowRiskMax\<close> up, else Low; a comparison with a
  missing threshold is false.\<close>

definition level_from_table :: "FraudDetector \<Rightarrow> score_result \<Rightarrow> bool" where
  "level_from_table det r =
     (riskLevel r =
        (if js_ge (score r) (threshold det ''highRiskMin'') then High
         else if js_ge (score r) (threshold det ''lowRiskMax'') then Medium
         else Low))"

text \<open>
  The anomaly strategy in the words of the specification. \<open>spec_zScore_max\<close> divides by
  \<open>max(std, 1)\<close>, as the specification has it; \<open>spec_zScore\<close> divides by \<open>std\<close> itself unless
  \<open>std\<close> is zero or not a number, and by 1 then. \<open>spec_anomaly\<close> is the factor of one
  entry of the vector, if it has one.
\<close>

definition spec_zScore_max :: "stats \<Rightarrow> jsnum \<Rightarrow> jsnum" where
  "spec_zScore_max st x =
     js_div (js_sub x (to_number (st_mean st))) (js_max2 (to_number (st_std st)) (Fin 1))"

fun spec_divisor :: "jsval \<Rightarrow> jsnum" where
  "spec_divisor (Num (Fin a)) = (if a = 0 then Fin 1 else Fin a)"
| "spec_divisor (Num PInf) = PInf"
| "spec_divisor (Num NInf) = NInf"
| "spec_divisor _ = Fin 1"

definition spec_zScore :: "stats \<Rightarrow> jsnum \<Rightarrow> jsnum" where
  "spec_zScore st x = js_div (js_sub x (to_number (st_mean st))) (spec_divisor (st_std st))"

definition spec_anomaly :: "FraudDetector \<Rightarrow> string \<times> jsval \<Rightarrow> factor option" where
  "spec_anomaly det e =
     (case snd e of
        Num x \<Rightarrow>
          (case map_of (featureStats det) (fst e) of
             None \<Rightarrow> None
           | Some st \<Rightarrow>
               if js_gt (js_abs (spec_zScore st x)) (threshold det ''zScoreThreshold'')
               then Some \<lparr>ftype = ''STATISTICAL_ANOMALY'',
                          description =
                            [Lit (fst e), Lit '': '', ToFixed (Num x) 2, Lit '' is '',
                             ToFixed (Num (spec_zScore st x)) 1, Lit '' std devs from mean''],
                          contribution =
                            js_min2 (js_round (js_mul (js_abs (spec_zScore st x)) (Fin 5)))
                              (Fin 15),
                          severity = (if js_gt (js_abs (spec_zScore st x)) (Fin 3) then high
                                      else medium)\<rparr>
               else None)
      | _ \<Rightarrow> None)"

text \<open>
  The confidence in the words of the specification: \<open>round(base * completeness, 2)\<close> with
  \<open>base\<close> 0.85 for a trained model and 0.70 otherwise, and
  \<open>completeness = min(present / 10, 1)\<close>; \<open>present_count\<close> counts the entries of the vector
  whose value is neither \<^verbatim>\<open>null\<close> nor \<^verbatim>\<open>undefined\<close>.
\<close>

definition present_count :: "object \<Rightarrow> nat" where
  "present_count features =
     length (filter (\<lambda>e. snd e \<noteq> Null \<and> snd e \<noteq> Undefined) features)"

definition spec_confidence :: "bool \<Rightarrow> nat \<Rightarrow> real" where
  "spec_confidence is_trained n =
     of_int \<lfloor>(if is_trained then 85 / 100 else 70 / 100) * min (real n / 10) 1 * 100 + 1 / 2\<rfloor>
       / 100"

text \<open>The detector is in default mode: untrained and without a profile.\<close>

definition default_mode :: "FraudDetector \<Rightarrow> bool" where
  "default_mode det = (\<not> trained det \<and> length (map fst (featureStats det)) = 0)"

text \<open>The value \<open>v\<close> of feature \<open>k\<close> is at or above the profile's mean for \<open>k\<close>, and the
  divisor of the z-score is positive; nothing is asked when the profile has no entry
  for \<open>k\<close>.\<close>

definition above_mean :: "FraudDetector \<Rightarrow> string \<Rightarrow> jsnum \<Rightarrow> bool" where
  "above_mean det k v =
     (case map_of (featureStats det) k of
        None \<Rightarrow> True
      | Some st \<Rightarrow> js_le (to_number (st_mean st)) v \<and> js_gt (spec_divisor (st_std st)) (Fin 0))"

text \<open>
  What JSON can carry as it is: finite numbers, \<^verbatim>\<open>null\<close> and booleans. A model is clean
  when its profile, its patterns and its thresholds hold nothing else.
\<close>

fun clean_val :: "jsval \<Rightarrow> bool" where
  "clean_val (Num (Fin a)) = True"
| "clean_val (Num _) = False"
| "clean_val Undefined = False"
| "clean_val _ = True"

definition clean_object :: "object \<Rightarrow> bool" where
  "clean_object obj = list_all (\<lambda>e. clean_val (snd e)) obj"

definition clean_stats :: "stats \<Rightarrow> bool" where
  "clean_stats s =
     (clean_val (st_mean s) \<and> clean_val (st_std s) \<and> clean_val (st_min s)
      \<and> clean_val (st_max s) \<and> clean_val (st_median s) \<and> clean_val (st_p25 s)
      \<and> clean_val (st_p75 s) \<and> clean_val (st_p90 s) \<and> clean_val (st_p95 s)
      \<and> clean_val (st_count s))"

definition clean_fraud_type :: "fraud_type_entry \<Rightarrow> bool" where
  "clean_fraud_type e =
     (clean_val (ft_count e) \<and> clean_val (ft_totalAmount e) \<and> clean_val (ft_avgAmount e)
      \<and> clean_object (ft_indicators e))"

definition clean_industry :: "industry_entry \<Rightarrow> bool" where
  "clean_industry e =
     (clean_val (in_count e) \<and> clean_val (in_totalAmount e) \<and> clean_object (in_fraudTypes e))"

definition clean_factor :: "common_factor \<Rightarrow> bool" where
  "clean_factor f = (clean_val (cf_count f) \<and> clean_val (cf_weight f))"

definition clean_patterns :: "fraud_patterns \<Rightarrow> bool" where
  "clean_patterns p =
     ((case byFraudType p of None \<Rightarrow> True
       | Some es \<Rightarrow> list_all (\<lambda>e. clean_fraud_type (snd e)) es)
      \<and> (case byIndustry p of None \<Rightarrow> True
          | Some es \<Rightarrow> list_all (\<lambda>e. clean_industry (snd e)) es)
      \<and> (case indicators p of None \<Rightarrow> True | Some obj \<Rightarrow> clean_object obj)
      \<and> (case commonFactors p of None \<Rightarrow> True | Some fs \<Rightarrow> list_all clean_factor fs))"

definition clean_model :: "FraudDetector \<Rightarrow> bool" where
  "clean_model det =
     (list_all (\<lambda>e. clean_stats (snd e)) (featureStats det)
      \<and> clean_patterns (fraudPatterns det)
      \<and> clean_object (thresholds det))"

text \<open>
  Year-over-year growth in the words of the specification. The year of an award is the
  first four characters of its start date; \<open>spec_years\<close> are the distinct years in
  ascending order; the total of a year is the sum of the amounts of its awards (an
  unreadable amount counts 0). \<open>spec_growth_plain\<close> divides the last total by the one
  before it; \<open>spec_growth\<close> divides by 1 instead when that total is zero.
\<close>

definition year_of :: "award \<Rightarrow> string option" where
  "year_of a =
     (case Start_Date a of None \<Rightarrow> None | Some d \<Rightarrow> if d = [] then None else Some (take 4 d))"

definition spec_years :: "award list \<Rightarrow> string list" where
  "spec_years awards = sort (remdups (List.map_filter year_of awards))"

definition spec_year_total :: "award list \<Rightarrow> string \<Rightarrow> jsnum" where
  "spec_year_total awards y =
     js_sum (map (\<lambda>a. or_else (Award_Amount a) (Fin 0))
               (filter (\<lambda>a. year_of a = Some y) awards))"

definition spec_growth_plain :: "award list \<Rightarrow> jsnum" where
  "spec_growth_plain awards =
     (let ys = spec_years awards
      in if length ys < 2 then Fin 1
         else js_div (spec_year_total awards (last ys))
                     (spec_year_total awards (last (butlast ys))))"

definition spec_growth :: "award list \<Rightarrow> jsnum" where
  "spec_growth awards =
     (let ys = spec_years awards
      in if length ys < 2 then Fin 1
         else (let prev = spec_year_total awards (last (butlast ys))
               in js_div (spec_year_total awards (last ys))
                         (if prev = Fin 0 then Fin 1 else prev)))"

definition finite_amounts :: "award list \<Rightarrow> bool" where
  "finite_amounts awards =
     list_all (\<lambda>a. Award_Amount a \<noteq> PInf \<and> Award_Amount a \<noteq> NInf) awards"

section \<open>Sample inputs\<close>

text \<open>A trained detector with one profile entry and one learned pattern, and a feature
  vector for it; used to instantiate the theorems below.\<close>

definition sample_stats :: stats where
  "sample_stats =
     \<lparr>st_mean = Num (Fin (1 / 10)), st_std = Num (Fin (1 / 10)), st_min = Num (Fin 0),
      st_max = Num (Fin (2 / 10)), st_median = Num (Fin (1 / 10)), st_p25 = Num (Fin 0),
      st_p75 = Num (Fin (2 / 10)), st_p90 = Num (Fin (2 / 10)), st_p95 = Num (Fin (2 / 10)),
      st_count = Num (Fin 3)\<rparr>"

definition sample_detector :: FraudDetector where
  "sample_detector =
     \<lparr>trained = True,
      featureStats = [(''largeAwardRatio'', sample_stats)],
      fraudPatterns =
        \<lparr>byFraudType = Some [], byIndustry = Some [],
         indicators = Some [(''Sole Source'', Num (Fin 1))],
         commonFactors =
           Some [\<lparr>cf_indicator = ''Sole Source'', cf_count = Num (Fin 1),
                  cf_weight = Num (Fin (1 / 2))\<rparr>]\<rparr>,
      thresholds = optimizeThresholds () (),
      modelVersion = ''1.0.0''\<rparr>"

definition sample_features :: object where
  "sample_features =
     [(''largeAwardRatio'', Num (Fin (5 / 10))), (''sole_source'', Num (Fin 1)),
      (''highComplexityRatio'', Num (Fin (5 / 10)))]"

text \<open>A detector whose table puts the high-complexity threshold at 0.\<close>

definition low_threshold_detector :: FraudDetector where
  "low_threshold_detector =
     new_FraudDetector
       \<lparr>thresholds := [(''highComplexityRatio'', Num (Fin 0)), (''lowRiskMax'', Num (Fin 25)),
                       (''highRiskMin'', Num (Fin 50))]\<rparr>"

text \<open>A trained detector whose profile has the mean of \<open>largeAwardRatio\<close> at 0.9.\<close>

definition high_mean_detector :: FraudDetector where
  "high_mean_detector =
     sample_detector
       \<lparr>featureStats := [(''largeAwardRatio'', sample_stats\<lparr>st_mean := Num (Fin (9 / 10))\<rparr>)]\<rparr>"

text \<open>Two inputs of the extractors: an award whose amount is missing, and a provider
  without exclusions.\<close>

definition award_without_amount :: award where
  "award_without_amount =
     \<lparr>Award_Amount = NaN, Awarding_Agency = Some ''Department of Energy'',
      Start_Date = Some ''2023-04-01'', Description = Some ''Maintenance''\<rparr>"

definition clean_provider :: provider where
  "clean_provider = \<lparr>excludedPreviously = False, relatedPartyExcluded = False\<rparr>"

text \<open>Inputs for the theorems on training, saving and loading.\<close>

definition sample_corpus :: "training_record list" where
  "sample_corpus =
     [\<lparr>tr_features = Some [(''largeAwardRatio'', Num (Fin (1 / 2)))]\<rparr>,
      \<lparr>tr_features = Some [(''largeAwardRatio'', Num (Fin (1 / 2)))]\<rparr>]"

definition sample_cases :: "fraud_case list" where
  "sample_cases =
     [\<lparr>fc_fraud_type = Some [''kickbacks''], fc_amount = Fin 1000,
       fc_industry = Some ''healthcare'', fc_indicators = Some [''Sole Source'']\<rparr>]"

definition nan_corpus :: "training_record list" where
  "nan_corpus = [\<lparr>tr_features = Some [(''concentrationIndex'', Num NaN)]\<rparr>]"

text \<open>Awards of 2022 and 2023.\<close>

definition award_2022_zero :: award where
  "award_2022_zero =
     \<lparr>Award_Amount = Fin 0, Awarding_Agency = Some ''Department of Energy'',
      Start_Date = Some ''2022-03-15'', Description = Some ''Maintenance''\<rparr>"

definition award_2022 :: award where
  "award_2022 =
     \<lparr>Award_Amount = Fin 100, Awarding_Agency = Some ''Department of Energy'',
      Start_Date = Some ''2022-03-15'', Description = Some ''Maintenance''\<rparr>"

definition award_2023 :: award where
  "award_2023 =
     \<lparr>Award_Amount = Fin 500, Awarding_Agency = Some ''Department of Energy'',
      Start_Date = Some ''2023-04-01'', Description = Some ''Maintenance''\<rparr>"

section \<open>Auxiliary functions of the proofs\<close>

text \<open>\<open>up a b\<close>: the value stayed or went up. \<open>effA\<close>, \<open>eff_anomaly\<close> and
  \<open>eff_pattern\<close> are what one entry of the vector, or one learned pattern, adds to the
  score: its contribution when it gives a factor, and 0 otherwise.\<close>

definition up :: "jsnum \<Rightarrow> jsnum \<Rightarrow> bool" where
  "up a b = (a = b \<or> js_le a b)"

definition effA :: "jsnum \<Rightarrow> jsnum \<Rightarrow> jsnum" where
  "effA t z = (if js_gt (js_abs z) t
               then js_min2 (js_round (js_mul (js_abs z) (Fin 5))) (Fin 15) else Fin 0)"

definition eff_anomaly :: "FraudDetector \<Rightarrow> string \<times> jsval \<Rightarrow> jsnum" where
  "eff_anomaly det e = (case spec_anomaly det e of None \<Rightarrow> Fin 0 | Some f \<Rightarrow> contribution f)"

definition eff_pattern :: "object \<Rightarrow> common_factor \<Rightarrow> jsnum" where
  "eff_pattern features f =
     (if truthy (get_prop features (replace_spaces (toLowerCase (cf_indicator f))))
         \<and> js_gt (fnum features (replace_spaces (toLowerCase (cf_indicator f)))) (Fin 0)
      then js_round (js_mul (to_number (cf_weight f)) (Fin 20)) else Fin 0)"

text \<open>For the yearly totals: a finite number, the amount an award counts with, one
  step of the loop of \<open>groupByYear\<close>, an object whose values are all finite, and the total
  a year starts from.\<close>

fun is_fin :: "jsnum \<Rightarrow> bool" where
  "is_fin (Fin r) = True"
| "is_fin _ = False"

definition amt :: "award \<Rightarrow> jsnum" where
  "amt a = or_else (Award_Amount a) (Fin 0)"

definition gstep :: "(string \<times> jsnum) list \<Rightarrow> award \<Rightarrow> (string \<times> jsnum) list" where
  "gstep byYear item =
     (case year_of item of
        None \<Rightarrow> byYear
      | Some year \<Rightarrow>
          AList.update year (js_add (or_else (num_prop byYear year) (Fin 0)) (amt item)) byYear)"

definition fin_vals :: "(string \<times> jsnum) list \<Rightarrow> bool" where
  "fin_vals acc = (\<forall>y v. map_of acc y = Some v \<longrightarrow> is_fin v)"

definition start :: "(string \<times> jsnum) list \<Rightarrow> string \<Rightarrow> jsnum" where
  "start acc y = (case map_of acc y of None \<Rightarrow> Fin 0 | Some v \<Rightarrow> v)"

section \<open>Properties\<close>

subsection \<open>Comparisons with NaN\<close>

lemma js_gt_NaN [simp]: "js_gt a NaN = False" "js_gt NaN a = False"
  by (cases a; simp add: js_gt_def)+

lemma js_ge_NaN [simp]: "js_ge a NaN = False" "js_ge NaN a = False"
  by (simp_all add: js_ge_def)

subsection \<open>A detector that was never trained and never loaded\<close>

lemma get_prop_fresh: "to_number (get_prop (thresholds new_FraudDetector) k) = NaN"
  by (simp add: new_FraudDetector_def get_prop_def)

lemma threshold_fresh: "threshold new_FraudDetector k = NaN"
  by (simp add: threshold_def get_prop_fresh)

lemma getRiskLevel_fresh: "getRiskLevel new_FraudDetector sc = Low"
  by (simp add: getRiskLevel_def threshold_fresh)

text \<open>
  Claim C10. The constructor leaves \<open>thresholds\<close> empty, so both comparisons of
  \<open>getRiskLevel\<close> are against a missing value and it answers \<open>Low\<close> for every score.
  \<open>scoreHealthcareProvider\<close> on such a detector therefore returns (it cannot throw there)
  a result whose risk level is \<open>Low\<close> for every feature vector, also for the vector with
  the two exclusion flags set, whose score is 50.
\<close>

theorem fresh_detector_always_low:
  "thresholds new_FraudDetector = []
   \<and> getRiskLevel new_FraudDetector sc = Low
   \<and> (\<exists>r. scoreHealthcareProvider new_FraudDetector features = Inr r \<and> riskLevel r = Low)
   \<and> (\<exists>r. scoreHealthcareProvider new_FraudDetector
              [(''hasExclusionHistory'', Num (Fin 1)), (''relatedPartyExcluded'', Num (Fin 1))]
            = Inr r
          \<and> score r = Fin 50 \<and> riskLevel r = Low
          \<and> map ftype (factors r) = [''PRIOR_EXCLUSION'', ''RELATED_PARTY_EXCLUDED''])"
proof -
  have a: "thresholds new_FraudDetector = []"
    by (simp add: new_FraudDetector_def)
  have b: "\<exists>r. scoreHealthcareProvider new_FraudDetector features = Inr r \<and> riskLevel r = Low"
    by (simp add: scoreHealthcareProvider_def hc_pharma_def threshold_fresh getRiskLevel_fresh
        Let_def)
  have c: "\<exists>r. scoreHealthcareProvider new_FraudDetector
              [(''hasExclusionHistory'', Num (Fin 1)), (''relatedPartyExcluded'', Num (Fin 1))]
            = Inr r
          \<and> score r = Fin 50 \<and> riskLevel r = Low
          \<and> map ftype (factors r) = [''PRIOR_EXCLUSION'', ''RELATED_PARTY_EXCLUDED'']"
    by (simp add: scoreHealthcareProvider_def hc_complexity_def hc_pharma_def
        hc_concentration_def hc_exclusion_def hc_related_def hc_volume_def threshold_fresh
        getRiskLevel_fresh Let_def fnum_def get_prop_def add_factor_def truthy_num_def
        js_min2_def)
  from a b c show ?thesis
    by (simp add: getRiskLevel_fresh)
qed

subsection \<open>The range of the score\<close>

lemma nni_add: "nni a \<Longrightarrow> nni b \<Longrightarrow> nni (js_add a b)"
  by (cases a; cases b; simp) (metis Ints_add Ints_of_int floor_of_int Ints_cases)

lemma nni_round_mul: "js_gt v (Fin t) \<Longrightarrow> 0 \<le> t \<Longrightarrow> 0 < k \<Longrightarrow> nni (js_round (js_mul v (Fin k)))"
  by (cases v; simp add: js_gt_def)

lemma nni_round_mul_ge: "js_ge v (Fin 0) \<Longrightarrow> 0 < k \<Longrightarrow> nni (js_round (js_mul v (Fin k)))"
  by (cases v; simp add: js_ge_def)

lemma nni_min2: "nni a \<Longrightarrow> nni b \<Longrightarrow> nni (js_min2 a b)"
  by (cases a; cases b; simp add: js_min2_def)

lemma nni_add_factor: "nni (fst st) \<Longrightarrow> nni (contribution f) \<Longrightarrow> nni (fst (add_factor st f))"
  by (simp add: add_factor_def nni_add)

lemma cap_score: "nni a \<Longrightarrow> \<exists>i. js_min2 (js_round a) (Fin 100) = Fin (of_int i) \<and> 0 \<le> i \<and> i \<le> 100"
proof (cases a)
  case (Fin x)
  assume "nni a"
  with Fin have x: "0 \<le> x" by simp
  show ?thesis
  proof (cases "100 < \<lfloor>x + 1/2\<rfloor>")
    case True
    then have "js_min2 (js_round a) (Fin 100) = Fin (of_int 100)"
      using Fin by (simp add: js_min2_def)
    then show ?thesis by (intro exI[of _ 100]) simp
  next
    case False
    then have "js_min2 (js_round a) (Fin 100) = Fin (of_int \<lfloor>x + 1/2\<rfloor>)"
      using Fin by (simp add: js_min2_def) 
    moreover have "0 \<le> \<lfloor>x + 1/2\<rfloor>" using x by simp
    ultimately show ?thesis using False by (intro exI[of _ "\<lfloor>x + 1/2\<rfloor>"]) simp
  qed
next
  case PInf
  then have "js_min2 (js_round a) (Fin 100) = Fin (of_int 100)" by (simp add: js_min2_def)
  then show ?thesis by (intro exI[of _ 100]) simp
qed simp_all

lemma nni_rule_largeAward: "nni (fst st) \<Longrightarrow> nni (fst (rule_largeAward features st))"
  by (simp add: rule_largeAward_def Let_def nni_add_factor nni_round_mul[where t="3/10"])

lemma nni_rule_agency: "nni (fst st) \<Longrightarrow> nni (fst (rule_agency features st))"
  by (simp add: rule_agency_def nni_add_factor)

lemma nni_rule_soleSource: "nni (fst st) \<Longrightarrow> nni (fst (rule_soleSource features st))"
  by (simp add: rule_soleSource_def Let_def nni_add_factor nni_round_mul[where t="5/10"])

lemma nni_growth_contribution:
  "js_gt v (Fin 2) \<Longrightarrow> nni (js_min2 (js_round (js_mul (js_sub v (Fin 1)) (Fin 15))) (Fin 25))"
  by (cases v; simp add: js_gt_def js_sub_def js_min2_def)

lemma nni_rule_growth: "nni (fst st) \<Longrightarrow> nni (fst (rule_growth features st))"
  by (simp add: rule_growth_def Let_def nni_add_factor nni_growth_contribution)

lemma nni_rule_highRisk: "nni (fst st) \<Longrightarrow> nni (fst (rule_highRisk features st))"
  by (simp add: rule_highRisk_def Let_def nni_add_factor nni_round_mul[where t="3/10"])

lemma nni_rule_defense: "nni (fst st) \<Longrightarrow> nni (fst (rule_defense features st))"
  by (simp add: rule_defense_def nni_add_factor)

lemma default_score_range:
  "\<exists>i. score (defaultContractorScoring det features) = Fin (of_int i) \<and> 0 \<le> i \<and> i \<le> 100"
  unfolding defaultContractorScoring_def Let_def score_result.simps
  by (intro cap_score nni_rule_defense nni_rule_highRisk nni_rule_growth nni_rule_soleSource
      nni_rule_agency nni_rule_largeAward) simp


lemma nni_anomaly_contribution:
  "js_gt (js_abs z) t \<Longrightarrow> nni (js_min2 (js_round (js_mul (js_abs z) (Fin 5))) (Fin 15))"
  by (cases z; cases t; simp add: js_gt_def js_min2_def)

lemma nni_detectAnomalies_loop:
  "nni (fst acc) \<Longrightarrow> nni (fst (detectAnomalies_loop det features acc))"
proof (induction features arbitrary: acc)
  case Nil
  then show ?case by simp
next
  case (Cons e rest)
  obtain key v where e: "e = (key, v)" by (cases e)
  show ?case
    using Cons.prems
    by (auto simp: e Let_def split: jsval.splits option.splits
        intro!: Cons.IH nni_add_factor nni_anomaly_contribution)
qed

lemma nni_matchFraudPatterns_loop:
  "list_all (\<lambda>f. js_ge (to_number (cf_weight f)) (Fin 0)) fs \<Longrightarrow> nni (fst acc) \<Longrightarrow>
   nni (fst (matchFraudPatterns_loop features fs acc))"
proof (induction fs arbitrary: acc)
  case Nil
  then show ?case by simp
next
  case (Cons f rest)
  then show ?case
    by (auto simp: Let_def intro!: Cons.IH nni_add_factor nni_round_mul_ge)
qed

lemma nni_trained_sum:
  assumes "weights_ok det"
  shows "nni (js_add (js_add (js_add (Fin 0) (fst (detectAnomalies det features)))
                 (fst (matchFraudPatterns det features))) (fst (applyContractorRules features)))"
proof -
  have a: "nni (fst (detectAnomalies det features))"
    by (simp add: detectAnomalies_def nni_detectAnomalies_loop)
  have b: "nni (fst (matchFraudPatterns det features))"
    using assms
    by (auto simp: matchFraudPatterns_def weights_ok_def nni_matchFraudPatterns_loop
        split: option.splits)
  have c: "nni (fst (applyContractorRules features))"
    by (simp add: applyContractorRules_def)
  show ?thesis
    by (intro nni_add a b c) simp
qed

lemma scoreContractor_range:
  assumes "weights_ok det"
  shows "\<exists>i. score (scoreContractor det features) = Fin (of_int i) \<and> 0 \<le> i \<and> i \<le> 100"
proof (cases "\<not> trained det \<and> length (map fst (featureStats det)) = 0")
  case True
  then show ?thesis
    using default_score_range[of det features] by (simp add: scoreContractor_def)
next
  case False
  then have "score (scoreContractor det features) =
      js_min2 (js_round (js_add (js_add (js_add (Fin 0) (fst (detectAnomalies det features)))
                 (fst (matchFraudPatterns det features))) (fst (applyContractorRules features))))
        (Fin 100)"
    by (auto simp: scoreContractor_def Let_def)
  then show ?thesis
    using cap_score[OF nni_trained_sum[OF assms, of features]] by simp
qed

lemma nni_hc_contribution:
  "js_gt v t \<Longrightarrow> \<not> js_lt t (Fin (3 / 16)) \<Longrightarrow>
   nni (js_round (js_mul (js_sub v (Fin (1 / 5))) (Fin 40)))"
  by (cases v; cases t; simp add: js_gt_def js_sub_def)

lemma nni_hc_complexity:
  "\<not> js_lt (threshold det ''highComplexityRatio'') (Fin (3 / 16)) \<Longrightarrow> nni (fst st) \<Longrightarrow>
   nni (fst (hc_complexity det features st))"
  by (simp add: hc_complexity_def Let_def nni_add_factor nni_hc_contribution)

lemma nni_hc_pharma:
  "hc_pharma det features st = Inr st' \<Longrightarrow> nni (fst st) \<Longrightarrow> nni (fst st')"
  by (auto simp: hc_pharma_def Let_def nni_add_factor split: if_splits)

lemma nni_hc_concentration: "nni (fst st) \<Longrightarrow> nni (fst (hc_concentration features st))"
  by (simp add: hc_concentration_def nni_add_factor)

lemma nni_hc_exclusion: "nni (fst st) \<Longrightarrow> nni (fst (hc_exclusion features st))"
  by (simp add: hc_exclusion_def nni_add_factor)

lemma nni_hc_related: "nni (fst st) \<Longrightarrow> nni (fst (hc_related features st))"
  by (simp add: hc_related_def nni_add_factor)

lemma nni_hc_volume: "nni (fst st) \<Longrightarrow> nni (fst (hc_volume features st))"
  by (simp add: hc_volume_def nni_add_factor)

lemma scoreHealthcareProvider_range:
  assumes "\<not> js_lt (threshold det ''highComplexityRatio'') (Fin (3 / 16))"
    and "scoreHealthcareProvider det features = Inr r"
  shows "\<exists>i. score r = Fin (of_int i) \<and> 0 \<le> i \<and> i \<le> 100"
proof -
  from assms(2) obtain st2 where
    st2: "hc_pharma det features (hc_complexity det features (Fin 0, [])) = Inr st2"
    by (auto simp: scoreHealthcareProvider_def split: sum.splits)
  have "nni (fst st2)"
    by (rule nni_hc_pharma[OF st2]) (simp add: nni_hc_complexity assms(1))
  then have "nni (fst (hc_volume features (hc_related features (hc_exclusion features
                       (hc_concentration features st2)))))"
    by (intro nni_hc_volume nni_hc_related nni_hc_exclusion nni_hc_concentration)
  from cap_score[OF this] show ?thesis
    using assms(2) st2 by (auto simp: scoreHealthcareProvider_def Let_def)
qed

subsection \<open>Score range and risk level\<close>

lemma level_contractor: "level_from_table det (scoreContractor det features)"
  by (simp add: level_from_table_def scoreContractor_def defaultContractorScoring_def
      getRiskLevel_def Let_def)

lemma level_healthcare:
  "scoreHealthcareProvider det features = Inr r \<Longrightarrow> level_from_table det r"
  by (auto simp: level_from_table_def scoreHealthcareProvider_def getRiskLevel_def Let_def
      split: sum.splits)

text \<open>
  Claim C1, as amended. When the learned pattern weights are numbers that are not negative
  and the table's \<open>highComplexityRatio\<close> threshold is missing or at least 0.1875 (the
  built-in table has 0.4), the score of \<open>scoreContractor\<close> and of every result of
  \<open>scoreHealthcareProvider\<close> is a whole number from 0 to 100. In every case the risk level
  is the one the table in effect gives that score: High from \<open>highRiskMin\<close> up, else Medium
  from \<open>lowRiskMax\<close> up, else Low.
\<close>

theorem score_range_and_level:
  assumes "weights_ok det"
    and "\<not> js_lt (threshold det ''highComplexityRatio'') (Fin (3 / 16))"
  shows "(\<exists>i. score (scoreContractor det features) = Fin (of_int i) \<and> 0 \<le> i \<and> i \<le> 100)
     \<and> level_from_table det (scoreContractor det features)
     \<and> (case scoreHealthcareProvider det features of
          Inl e \<Rightarrow> True
        | Inr r \<Rightarrow> (\<exists>i. score r = Fin (of_int i) \<and> 0 \<le> i \<and> i \<le> 100)
                   \<and> level_from_table det r)"
proof -
  have "case scoreHealthcareProvider det features of
          Inl e \<Rightarrow> True
        | Inr r \<Rightarrow> (\<exists>i. score r = Fin (of_int i) \<and> 0 \<le> i \<and> i \<le> 100)
                   \<and> level_from_table det r"
  proof (cases "scoreHealthcareProvider det features")
    case (Inl e)
    then show ?thesis by simp
  next
    case (Inr r)
    with scoreHealthcareProvider_range[OF assms(2) Inr] level_healthcare[OF Inr]
    show ?thesis by simp
  qed
  with scoreContractor_range[OF assms(1), of features] level_contractor[of det features]
  show ?thesis by simp
qed

lemma sample_weights_ok: "weights_ok sample_detector"
  by (simp add: weights_ok_def sample_detector_def js_ge_def)

lemma sample_threshold_ok:
  "\<not> js_lt (threshold sample_detector ''highComplexityRatio'') (Fin (3 / 16))"
  by (simp add: threshold_def sample_detector_def optimizeThresholds_def get_prop_def)

lemma replace_sole: "replace_spaces (toLowerCase ''Sole Source'') = ''sole_source''"
  by (simp add: toLowerCase_def toLowerCase_char_def is_space_def)

lemma sample_contractor_score: "score (scoreContractor sample_detector sample_features) = Fin 25"
  by (simp add: scoreContractor_def sample_detector_def sample_features_def Let_def
      detectAnomalies_def matchFraudPatterns_def applyContractorRules_def
      sample_stats_def threshold_def optimizeThresholds_def get_prop_def fnum_def
      add_factor_def js_sub_def js_gt_def js_min2_def truthy_num_def replace_sole)

lemma sample_hc_score: "map_sum id score (scoreHealthcareProvider sample_detector sample_features) = Inr (Fin 12)"
  by (simp add: scoreHealthcareProvider_def sample_detector_def sample_features_def Let_def
      hc_complexity_def hc_pharma_def hc_concentration_def hc_exclusion_def hc_related_def hc_volume_def
      threshold_def optimizeThresholds_def get_prop_def fnum_def
      add_factor_def js_sub_def js_gt_def js_min2_def truthy_num_def)

text \<open>The theorem at the sample detector: the anomaly on \<open>largeAwardRatio\<close> gives 15,
  the matched pattern 10, and 25 is Medium in the built-in table.\<close>

theorem score_range_and_level_witness:
  "weights_ok sample_detector
   \<and> \<not> js_lt (threshold sample_detector ''highComplexityRatio'') (Fin (3 / 16))
   \<and> score (scoreContractor sample_detector sample_features) = Fin 25
   \<and> level_from_table sample_detector (scoreContractor sample_detector sample_features)
   \<and> riskLevel (scoreContractor sample_detector sample_features) = Medium"
proof -
  note t = score_range_and_level[OF sample_weights_ok sample_threshold_ok, of sample_features]
  have "riskLevel (scoreContractor sample_detector sample_features) = Medium"
    using t sample_contractor_score
    by (simp add: level_from_table_def threshold_def sample_detector_def optimizeThresholds_def get_prop_def js_ge_def)
  with t sample_weights_ok sample_threshold_ok sample_contractor_score show ?thesis by simp
qed

text \<open>
  The claim as stated fails: only the upper end is capped. With the threshold at 0, a
  high-complexity ratio of 0.1 passes the test and contributes \<open>round((0.1 - 0.2) * 40)\<close>,
  and the score is -4.
\<close>

theorem negative_score_counterexample:
  "map_sum id score
     (scoreHealthcareProvider low_threshold_detector [(''highComplexityRatio'', Num (Fin (1 / 10)))])
   = Inr (Fin (- 4))
   \<and> js_lt (Fin (- 4)) (Fin 0)"
  by (simp add: scoreHealthcareProvider_def low_threshold_detector_def new_FraudDetector_def Let_def
      hc_complexity_def hc_pharma_def hc_concentration_def hc_exclusion_def hc_related_def hc_volume_def
      threshold_def get_prop_def fnum_def
      add_factor_def js_sub_def js_gt_def js_min2_def truthy_num_def)

subsection \<open>The anomaly strategy\<close>

lemma spec_divisor_eq:
  "spec_divisor s = (if truthy s then to_number s else Fin 1)"
  by (cases s rule: spec_divisor.cases) (simp_all add: truthy_num_def)

lemma detectAnomalies_loop_spec:
  "detectAnomalies_loop det features acc =
     (foldl js_add (fst acc) (map contribution (List.map_filter (spec_anomaly det) features)),
      snd acc @ List.map_filter (spec_anomaly det) features)"
proof (induction features arbitrary: acc)
  case Nil
  then show ?case by (simp add: List.map_filter_simps)
next
  case (Cons e rest)
  obtain key v where e: "e = (key, v)" by (cases e)
  show ?case
    by (simp add: e Cons.IH List.map_filter_simps spec_anomaly_def spec_zScore_def
        spec_divisor_eq add_factor_def Let_def split: jsval.splits option.splits)
qed

text \<open>
  Claim C5, as amended. For every numeric feature that the profile also has, the z-score is
  \<open>(value - mean) / std\<close>, with 1 in place of a \<open>std\<close> that is zero or not a number, and
  not \<open>max(std, 1)\<close>. The loop emits exactly the factors of \<open>spec_anomaly\<close>, in the order
  of the vector: a \<open>STATISTICAL_ANOMALY\<close> factor exactly when \<open>|z|\<close> exceeds
  \<open>zScoreThreshold\<close>, with contribution \<open>min(round(|z| * 5), 15)\<close> and severity high when
  \<open>|z| > 3\<close>, else medium; the score is the sum of the contributions; and the built-in
  table sets the threshold to 2.5.
\<close>

theorem anomalies_by_zScore:
  "snd (detectAnomalies det features) = List.map_filter (spec_anomaly det) features
   \<and> fst (detectAnomalies det features)
       = foldl js_add (Fin 0) (map contribution (snd (detectAnomalies det features)))
   \<and> threshold (det\<lparr>thresholds := optimizeThresholds corpus cases\<rparr>) ''zScoreThreshold''
       = Fin (25 / 10)"
  by (simp add: detectAnomalies_def detectAnomalies_loop_spec threshold_def
      optimizeThresholds_def get_prop_def)

text \<open>At the sample detector (mean 0.1, std 0.1) the value 0.5 has z-score 4.\<close>

theorem anomalies_by_zScore_witness:
  "map contribution (snd (detectAnomalies sample_detector sample_features)) = [Fin 15]
   \<and> map severity (snd (detectAnomalies sample_detector sample_features)) = [high]
   \<and> fst (detectAnomalies sample_detector sample_features) = Fin 15"
  using anomalies_by_zScore[of sample_detector sample_features]
  by (simp add: List.map_filter_simps spec_anomaly_def sample_detector_def sample_features_def
      sample_stats_def spec_zScore_def threshold_def optimizeThresholds_def get_prop_def
      js_sub_def js_gt_def js_min2_def)

text \<open>
  The claim as stated fails for a \<open>std\<close> between 0 and 1: with mean 0.1 and std 0.1 the
  value 0.5 is flagged by the code (z-score 4, contribution 15), while
  \<open>(0.5 - 0.1) / max(0.1, 1) = 0.4\<close> is below the threshold.
\<close>

theorem zScore_max_counterexample:
  "fst (detectAnomalies sample_detector [(''largeAwardRatio'', Num (Fin (5 / 10)))]) = Fin 15
   \<and> spec_zScore_max sample_stats (Fin (5 / 10)) = Fin (4 / 10)
   \<and> \<not> js_gt (js_abs (spec_zScore_max sample_stats (Fin (5 / 10))))
          (threshold sample_detector ''zScoreThreshold'')"
  by (simp add: detectAnomalies_def sample_detector_def sample_stats_def spec_zScore_max_def
      threshold_def optimizeThresholds_def get_prop_def add_factor_def
      js_sub_def js_gt_def js_min2_def js_max2_def truthy_num_def Let_def)

subsection \<open>Confidence\<close>

lemma get_prop_distinct:
  "distinct (map fst features) \<Longrightarrow> e \<in> set features \<Longrightarrow> get_prop features (fst e) = snd e"
  by (cases e) (simp add: get_prop_def)

lemma featureCount_eq:
  assumes "distinct (map fst features)"
  shows "length (filter (\<lambda>k. get_prop features k \<noteq> Null \<and> get_prop features k \<noteq> Undefined)
                   (map fst features)) = present_count features"
proof -
  have "filter (\<lambda>k. get_prop features k \<noteq> Null \<and> get_prop features k \<noteq> Undefined)
          (map fst features)
        = map fst (filter (\<lambda>e. get_prop features (fst e) \<noteq> Null
                               \<and> get_prop features (fst e) \<noteq> Undefined) features)"
    by (simp add: filter_map comp_def)
  also have "filter (\<lambda>e. get_prop features (fst e) \<noteq> Null
                               \<and> get_prop features (fst e) \<noteq> Undefined) features
        = filter (\<lambda>e. snd e \<noteq> Null \<and> snd e \<noteq> Undefined) features"
    by (rule filter_cong) (simp_all add: get_prop_distinct[OF assms])
  finally show ?thesis by (simp add: present_count_def)
qed

lemma js_min2_Fin: "js_min2 (Fin a) (Fin b) = Fin (min a b)"
  by (simp add: js_min2_def min_def)

lemma calculateConfidence_spec:
  assumes "distinct (map fst features)"
  shows "calculateConfidence det features
         = Fin (spec_confidence (trained det) (present_count features))"
  unfolding calculateConfidence_def featureCount_eq[OF assms]
  by (simp add: js_min2_Fin spec_confidence_def Let_def)

text \<open>
  Claim C6, as amended. For a feature vector (an object: its keys are distinct),
  \<open>calculateConfidence\<close> returns \<open>round(base * completeness, 2)\<close> with \<open>base\<close> 0.85 for a
  trained model and 0.70 otherwise, and \<open>completeness = min(present / 10, 1)\<close>. That is
  the confidence of every result of \<open>scoreHealthcareProvider\<close>, and of \<open>scoreContractor\<close>
  when the model is trained or has a profile; for an empty vector it is 0. While the
  model is untrained and has no profile, \<open>scoreContractor\<close> reports the constant 0.7.
\<close>

theorem confidence_rounded:
  assumes "distinct (map fst features)"
  shows "calculateConfidence det features
           = Fin (spec_confidence (trained det) (present_count features))
     \<and> (case scoreHealthcareProvider det features of
          Inl e \<Rightarrow> True
        | Inr r \<Rightarrow> confidence r = Fin (spec_confidence (trained det) (present_count features)))
     \<and> confidence (scoreContractor det features)
         = (if \<not> trained det \<and> featureStats det = [] then Fin (7 / 10)
            else Fin (spec_confidence (trained det) (present_count features)))
     \<and> calculateConfidence det [] = Fin 0"
proof -
  note c = calculateConfidence_spec[OF assms, of det]
  have a: "case scoreHealthcareProvider det features of
          Inl e \<Rightarrow> True
        | Inr r \<Rightarrow> confidence r = Fin (spec_confidence (trained det) (present_count features))"
    by (auto simp: scoreHealthcareProvider_def Let_def c split: sum.splits)
  have b: "confidence (scoreContractor det features)
         = (if \<not> trained det \<and> featureStats det = [] then Fin (7 / 10)
            else Fin (spec_confidence (trained det) (present_count features)))"
    by (simp add: scoreContractor_def defaultContractorScoring_def Let_def c)
  have d: "calculateConfidence det [] = Fin 0"
    by (simp add: calculateConfidence_def js_min2_def)
  from c a b d show ?thesis by simp
qed

text \<open>Three present features and a trained model: \<open>round(0.85 * 0.3, 2) = 0.26\<close>.\<close>

theorem confidence_rounded_witness:
  "distinct (map fst sample_features)
   \<and> calculateConfidence sample_detector sample_features = Fin (26 / 100)
   \<and> confidence (scoreContractor sample_detector sample_features) = Fin (26 / 100)"
proof -
  have d: "distinct (map fst sample_features)"
    by (simp add: sample_features_def)
  have n: "present_count sample_features = 3"
    by (simp add: present_count_def sample_features_def)
  have t: "trained sample_detector" "featureStats sample_detector \<noteq> []"
    by (simp_all add: sample_detector_def)
  have s: "spec_confidence True 3 = 26 / 100"
    by (simp add: spec_confidence_def)
  from confidence_rounded[OF d, of sample_detector] d show ?thesis
    by (simp add: n t s)
qed

text \<open>
  The claim as stated fails in default mode: a fresh detector scores the empty vector with
  confidence 0.7, where the formula gives 0 and the claim at most 0.1.
\<close>

theorem default_confidence_counterexample:
  "confidence (scoreContractor new_FraudDetector []) = Fin (7 / 10)
   \<and> js_gt (Fin (7 / 10)) (Fin (1 / 10))
   \<and> spec_confidence (trained new_FraudDetector) (present_count []) = 0"
  by (simp add: scoreContractor_def defaultContractorScoring_def new_FraudDetector_def Let_def
      spec_confidence_def present_count_def js_gt_def)

subsection \<open>Monotonicity of the score\<close>

lemma js_le_refl_nni: "nni a \<Longrightarrow> js_le a a"
  by (cases a; simp add: js_le_def js_ge_def)

lemma add_mono_nni:
  "nni a \<Longrightarrow> nni a' \<Longrightarrow> nni b \<Longrightarrow> nni b' \<Longrightarrow> js_le a a' \<Longrightarrow> js_le b b' \<Longrightarrow>
   js_le (js_add a b) (js_add a' b')"
  by (cases a; cases a'; cases b; cases b'; simp add: js_le_def js_ge_def)

lemma cap_mono:
  "nni a \<Longrightarrow> nni a' \<Longrightarrow> js_le a a' \<Longrightarrow>
   js_le (js_min2 (js_round a) (Fin 100)) (js_min2 (js_round a') (Fin 100))"
  by (cases a; cases a'; simp add: js_le_def js_ge_def js_min2_def not_less)
     (meson floor_mono add_right_mono le_floor_iff order_trans)+

lemma add_factor_mono:
  "nni (fst st) \<Longrightarrow> nni (fst st') \<Longrightarrow> js_le (fst st) (fst st') \<Longrightarrow>
   nni (contribution f) \<Longrightarrow> nni (contribution f') \<Longrightarrow>
   js_le (contribution f) (contribution f') \<Longrightarrow>
   js_le (fst (add_factor st f)) (fst (add_factor st' f'))"
  by (simp add: add_factor_def add_mono_nni)

lemma add_factor_incr:
  "nni (fst st) \<Longrightarrow> nni (fst st') \<Longrightarrow> js_le (fst st) (fst st') \<Longrightarrow>
   nni (contribution f') \<Longrightarrow>
   js_le (fst st) (fst (add_factor st' f'))"
  by (cases "fst st"; cases "fst st'"; cases "contribution f'"; simp add: add_factor_def js_le_def js_ge_def)

lemma up_gt: "up a b \<Longrightarrow> js_gt a t \<Longrightarrow> js_gt b t"
  by (cases a; cases b; cases t; auto simp add: up_def js_le_def js_ge_def js_gt_def)

lemma round_mul_mono:
  "up a b \<Longrightarrow> js_gt a (Fin t) \<Longrightarrow> 0 \<le> t \<Longrightarrow> 0 < k \<Longrightarrow>
   js_le (js_round (js_mul a (Fin k))) (js_round (js_mul b (Fin k)))"
  by (cases a; cases b; simp add: up_def js_le_def js_ge_def js_gt_def not_less)
     (auto intro!: floor_mono)


lemma up_refl [simp]: "up a a"
  by (simp add: up_def)

lemma fnum_update:
  "fnum (AList.update k x fs) key = (if key = k then to_number x else fnum fs key)"
  by (simp add: fnum_def get_prop_def update_conv')

lemma up_fnum_update:
  "js_le v v' \<Longrightarrow> up (fnum (AList.update k (Num v) fs) key) (fnum (AList.update k (Num v') fs) key)"
  by (simp add: fnum_update up_def)

lemma const_mono: "0 \<le> (a::real) \<Longrightarrow> js_le (Fin a) (Fin a)"
  by (simp add: js_le_def js_ge_def)

lemma rule_step_mono:
  assumes "nni (fst st)" "nni (fst st')" "js_le (fst st) (fst st')"
    and "g \<Longrightarrow> g'"
    and "g \<Longrightarrow> nni (contribution f) \<and> js_le (contribution f) (contribution f')"
    and "g' \<Longrightarrow> nni (contribution f')"
  shows "js_le (fst (if g then add_factor st f else st))
               (fst (if g' then add_factor st' f' else st'))"
proof (cases g)
  case True
  with assms show ?thesis by (simp add: add_factor_mono)
next
  case False
  with assms show ?thesis by (simp add: add_factor_incr)
qed

lemma rule_largeAward_mono:
  assumes "up (fnum fs ''largeAwardRatio'') (fnum fs' ''largeAwardRatio'')"
    and "nni (fst st)" "nni (fst st')" "js_le (fst st) (fst st')"
  shows "js_le (fst (rule_largeAward fs st)) (fst (rule_largeAward fs' st'))"
  unfolding rule_largeAward_def Let_def
  by (rule rule_step_mono[OF assms(2-4)])
     (simp_all add: up_gt[OF assms(1)] round_mul_mono[OF assms(1), where t="3/10"]
        nni_round_mul[where t="3/10"])

lemma rule_soleSource_mono:
  assumes "up (fnum fs ''soleSourceRatio'') (fnum fs' ''soleSourceRatio'')"
    and "nni (fst st)" "nni (fst st')" "js_le (fst st) (fst st')"
  shows "js_le (fst (rule_soleSource fs st)) (fst (rule_soleSource fs' st'))"
  unfolding rule_soleSource_def Let_def
  by (rule rule_step_mono[OF assms(2-4)])
     (simp_all add: up_gt[OF assms(1)] round_mul_mono[OF assms(1), where t="1/2"]
        nni_round_mul[where t="1/2"])

lemma rule_highRisk_mono:
  assumes "up (fnum fs ''highRiskCategoryRatio'') (fnum fs' ''highRiskCategoryRatio'')"
    and "nni (fst st)" "nni (fst st')" "js_le (fst st) (fst st')"
  shows "js_le (fst (rule_highRisk fs st)) (fst (rule_highRisk fs' st'))"
  unfolding rule_highRisk_def Let_def
  by (rule rule_step_mono[OF assms(2-4)])
     (simp_all add: up_gt[OF assms(1)] round_mul_mono[OF assms(1), where t="3/10"]
        nni_round_mul[where t="3/10"])

lemma rule_agency_mono:
  assumes "up (fnum fs ''agencyConcentration'') (fnum fs' ''agencyConcentration'')"
    and "nni (fst st)" "nni (fst st')" "js_le (fst st) (fst st')"
  shows "js_le (fst (rule_agency fs st)) (fst (rule_agency fs' st'))"
  unfolding rule_agency_def
  by (rule rule_step_mono[OF assms(2-4)])
     (simp_all add: up_gt[OF assms(1)] js_le_def js_ge_def)

lemma rule_defense_mono:
  assumes "up (fnum fs ''defenseRatio'') (fnum fs' ''defenseRatio'')"
    and "nni (fst st)" "nni (fst st')" "js_le (fst st) (fst st')"
  shows "js_le (fst (rule_defense fs st)) (fst (rule_defense fs' st'))"
  unfolding rule_defense_def
  by (rule rule_step_mono[OF assms(2-4)])
     (simp_all add: up_gt[OF assms(1)] js_le_def js_ge_def)

lemma growth_contribution_mono:
  "up a b \<Longrightarrow> js_gt a (Fin 2) \<Longrightarrow>
   js_le (js_min2 (js_round (js_mul (js_sub a (Fin 1)) (Fin 15))) (Fin 25))
         (js_min2 (js_round (js_mul (js_sub b (Fin 1)) (Fin 15))) (Fin 25))"
  by (cases a; cases b; simp add: up_def js_le_def js_ge_def js_gt_def js_sub_def js_min2_def not_less)
     (auto intro: order_trans[OF _ floor_mono])

lemma rule_growth_mono:
  assumes "up (fnum fs ''yearOverYearGrowth'') (fnum fs' ''yearOverYearGrowth'')"
    and "nni (fst st)" "nni (fst st')" "js_le (fst st) (fst st')"
  shows "js_le (fst (rule_growth fs st)) (fst (rule_growth fs' st'))"
  unfolding rule_growth_def Let_def
  by (rule rule_step_mono[OF assms(2-4)])
     (simp_all add: up_gt[OF assms(1)] growth_contribution_mono[OF assms(1)]
        nni_growth_contribution)

lemma default_mono:
  assumes "js_le v v'"
  shows "js_le (score (defaultContractorScoring det (AList.update k (Num v) features)))
               (score (defaultContractorScoring det (AList.update k (Num v') features)))"
  unfolding defaultContractorScoring_def Let_def score_result.simps
  by (intro cap_mono rule_defense_mono rule_highRisk_mono rule_growth_mono rule_soleSource_mono
      rule_agency_mono rule_largeAward_mono up_fnum_update[OF assms]
      nni_rule_defense nni_rule_highRisk nni_rule_growth nni_rule_soleSource
      nni_rule_agency nni_rule_largeAward) (simp_all add: js_le_def js_ge_def)


lemma nni_effA: "nni (effA t z)"
  by (simp add: effA_def nni_anomaly_contribution)

lemma effA_zero: "effA t (Fin 0) = Fin 0"
  by (simp add: effA_def js_min2_def)

lemma effA_NaN: "effA t NaN = Fin 0"
  by (simp add: effA_def)

lemma js_le_zero_nni: "nni a \<Longrightarrow> js_le (Fin 0) a"
  by (cases a; simp add: js_le_def js_ge_def)

lemma effA_mono_Fin: "0 \<le> a \<Longrightarrow> a \<le> b \<Longrightarrow> js_le (effA t (Fin a)) (effA t (Fin b))"
  by (cases t; simp add: effA_def js_gt_def js_min2_def js_le_def js_ge_def not_less)
     (auto intro: order_trans[OF _ floor_mono])

lemma effA_mono_PInf: "0 \<le> a \<Longrightarrow> js_le (effA t (Fin a)) (effA t PInf)"
  by (cases t; simp add: effA_def js_gt_def js_min2_def js_le_def js_ge_def not_less)

lemma zScore_cases:
  assumes "js_le m v" "js_le v v'" "js_gt d (Fin 0)"
  shows "js_div (js_sub v m) d = NaN \<or> js_div (js_sub v m) d = Fin 0
       \<or> js_div (js_sub v m) d = js_div (js_sub v' m) d
       \<or> (\<exists>a b. js_div (js_sub v m) d = Fin a \<and> js_div (js_sub v' m) d = Fin b \<and> 0 \<le> a \<and> a \<le> b)
       \<or> (\<exists>a. js_div (js_sub v m) d = Fin a \<and> js_div (js_sub v' m) d = PInf \<and> 0 \<le> a)"
  using assms
  by (cases m; cases v; cases v'; cases d;
      simp add: js_le_def js_ge_def js_gt_def js_sub_def not_less divide_right_mono)

lemma effA_mono:
  assumes "js_le m v" "js_le v v'" "js_gt d (Fin 0)"
  shows "js_le (effA t (js_div (js_sub v m) d)) (effA t (js_div (js_sub v' m) d))"
  using zScore_cases[OF assms]
  by (auto simp: effA_zero effA_NaN js_le_zero_nni nni_effA js_le_refl_nni
      effA_mono_Fin effA_mono_PInf)


lemma js_add_zero [simp]: "js_add a (Fin 0) = a"
  by (cases a) simp_all

lemma foldl_map_filter_contribution:
  "foldl js_add s (map contribution (List.map_filter g es))
   = foldl js_add s (map (\<lambda>e. case g e of None \<Rightarrow> Fin 0 | Some f \<Rightarrow> contribution f) es)"
  by (induction es arbitrary: s) (simp_all add: List.map_filter_simps split: option.splits)

lemma foldl_add_mono:
  "list_all2 (\<lambda>a b. nni a \<and> nni b \<and> js_le a b) xs ys \<Longrightarrow> nni s \<Longrightarrow> nni s' \<Longrightarrow>
   js_le s s' \<Longrightarrow>
   js_le (foldl js_add s xs) (foldl js_add s' ys) \<and> nni (foldl js_add s xs)
   \<and> nni (foldl js_add s' ys)"
proof (induction xs ys arbitrary: s s' rule: list_all2_induct)
  case Nil
  then show ?case by simp
next
  case (Cons x xs y ys)
  have "nni (js_add s x)" "nni (js_add s' y)" "js_le (js_add s x) (js_add s' y)"
    using Cons.hyps(1) Cons.prems by (simp_all add: nni_add add_mono_nni)
  from Cons.IH[OF this] show ?case by simp
qed

lemma eff_anomaly_eq:
  "eff_anomaly det (key, v) =
     (case v of
        Num x \<Rightarrow> (case map_of (featureStats det) key of
                    None \<Rightarrow> Fin 0
                  | Some st \<Rightarrow> effA (threshold det ''zScoreThreshold'') (spec_zScore st x))
      | _ \<Rightarrow> Fin 0)"
  by (simp add: eff_anomaly_def spec_anomaly_def effA_def split: jsval.splits option.splits)

lemma nni_eff_anomaly: "nni (eff_anomaly det e)"
  by (cases e) (simp add: eff_anomaly_eq nni_effA split: jsval.splits option.splits)

lemma detectAnomalies_sum:
  "fst (detectAnomalies det features) = foldl js_add (Fin 0) (map (eff_anomaly det) features)"
  by (simp add: detectAnomalies_def detectAnomalies_loop_spec foldl_map_filter_contribution
      eff_anomaly_def[abs_def])

lemma update_related:
  "list_all2 (\<lambda>e e'. fst e = fst e' \<and> (snd e = snd e' \<or> (fst e = k \<and> snd e = x \<and> snd e' = x')))
     (AList.update k x fs) (AList.update k x' fs)"
  by (induction fs) (auto simp: list_all2_same)

lemma eff_anomaly_mono:
  assumes "js_le v v'" "above_mean det k v"
  shows "js_le (eff_anomaly det (k, Num v)) (eff_anomaly det (k, Num v'))"
proof (cases "map_of (featureStats det) k")
  case None
  then show ?thesis by (simp add: eff_anomaly_eq js_le_def js_ge_def)
next
  case (Some st)
  with assms(2) have m: "js_le (to_number (st_mean st)) v"
    and d: "js_gt (spec_divisor (st_std st)) (Fin 0)"
    by (simp_all add: above_mean_def)
  show ?thesis
    using effA_mono[OF m assms(1) d] by (simp add: eff_anomaly_eq Some spec_zScore_def)
qed

lemma detectAnomalies_mono:
  assumes "js_le v v'" "above_mean det k v"
  shows "js_le (fst (detectAnomalies det (AList.update k (Num v) features)))
               (fst (detectAnomalies det (AList.update k (Num v') features)))
      \<and> nni (fst (detectAnomalies det (AList.update k (Num v) features)))
      \<and> nni (fst (detectAnomalies det (AList.update k (Num v') features)))"
proof -
  have "list_all2 (\<lambda>a b. nni a \<and> nni b \<and> js_le a b)
          (map (eff_anomaly det) (AList.update k (Num v) features))
          (map (eff_anomaly det) (AList.update k (Num v') features))"
    unfolding list_all2_map1 list_all2_map2
  proof (rule list_all2_mono[OF update_related])
    fix e e' :: "string \<times> jsval"
    assume r: "fst e = fst e' \<and> (snd e = snd e' \<or> (fst e = k \<and> snd e = Num v \<and> snd e' = Num v'))"
    show "nni (eff_anomaly det e) \<and> nni (eff_anomaly det e') \<and>
          js_le (eff_anomaly det e) (eff_anomaly det e')"
    proof (cases "snd e = snd e'")
      case True
      with r have "e = e'" by (simp add: prod_eq_iff)
      then show ?thesis by (simp add: nni_eff_anomaly js_le_refl_nni)
    next
      case False
      with r have "e = (k, Num v)" "e' = (k, Num v')" by (auto simp: prod_eq_iff)
      then show ?thesis by (simp add: nni_eff_anomaly eff_anomaly_mono[OF assms])
    qed
  qed
  from foldl_add_mono[OF this, of "Fin 0" "Fin 0"] show ?thesis
    by (simp add: detectAnomalies_sum js_le_def js_ge_def)
qed

lemma matchFraudPatterns_loop_sum:
  "fst (matchFraudPatterns_loop features fs acc)
   = foldl js_add (fst acc) (map (eff_pattern features) fs)"
  by (induction fs arbitrary: acc) (simp_all add: Let_def eff_pattern_def add_factor_def)

lemma get_prop_update:
  "get_prop (AList.update k x fs) key = (if key = k then x else get_prop fs key)"
  by (simp add: get_prop_def update_conv')

lemma eff_pattern_mono:
  assumes "js_le v v'" "js_ge (to_number (cf_weight f)) (Fin 0)"
  shows "nni (eff_pattern (AList.update k (Num v) features) f)
       \<and> nni (eff_pattern (AList.update k (Num v') features) f)
       \<and> js_le (eff_pattern (AList.update k (Num v) features) f)
               (eff_pattern (AList.update k (Num v') features) f)"
proof -
  have c: "nni (js_round (js_mul (to_number (cf_weight f)) (Fin 20)))"
    by (rule nni_round_mul_ge[OF assms(2)]) simp
  have g: "truthy (Num v) \<and> js_gt v (Fin 0) \<Longrightarrow> truthy (Num v') \<and> js_gt v' (Fin 0)"
    using assms(1)
    by (cases v; cases v'; auto simp: js_le_def js_ge_def js_gt_def truthy_num_def)
  show ?thesis
    using c g
    by (auto simp: eff_pattern_def get_prop_update fnum_update js_le_refl_nni js_le_zero_nni)
qed

lemma matchFraudPatterns_mono:
  assumes "js_le v v'" "weights_ok det"
  shows "js_le (fst (matchFraudPatterns det (AList.update k (Num v) features)))
               (fst (matchFraudPatterns det (AList.update k (Num v') features)))
      \<and> nni (fst (matchFraudPatterns det (AList.update k (Num v) features)))
      \<and> nni (fst (matchFraudPatterns det (AList.update k (Num v') features)))"
proof (cases "commonFactors (fraudPatterns det)")
  case None
  then show ?thesis by (simp add: matchFraudPatterns_def js_le_def js_ge_def)
next
  case (Some fs)
  with assms(2) have w: "list_all (\<lambda>f. js_ge (to_number (cf_weight f)) (Fin 0)) fs"
    by (simp add: weights_ok_def)
  have "list_all2 (\<lambda>a b. nni a \<and> nni b \<and> js_le a b)
          (map (eff_pattern (AList.update k (Num v) features)) fs)
          (map (eff_pattern (AList.update k (Num v') features)) fs)"
    using w eff_pattern_mono[OF assms(1)]
    by (simp add: list_all2_map1 list_all2_map2 list_all2_same list_all_iff)
  from foldl_add_mono[OF this, of "Fin 0" "Fin 0"] show ?thesis
    by (simp add: matchFraudPatterns_def Some matchFraudPatterns_loop_sum js_le_def js_ge_def)
qed


text \<open>
  Claim C7, as amended. Raising one feature and holding the others fixed never lowers the
  score of \<open>scoreContractor\<close> in default mode (untrained, no profile), where the rules
  apply. With the anomaly strategy active (a trained model or a profile) it never lowers
  the score provided the learned pattern weights are not negative and the feature's value
  is at or above its mean in the profile, with a positive divisor; below the mean the
  two-sided z-score test can lose a factor.
\<close>

theorem score_monotone:
  assumes "js_le v v'"
    and "default_mode det \<or> (weights_ok det \<and> above_mean det k v)"
  shows "js_le (score (scoreContractor det (AList.update k (Num v) features)))
               (score (scoreContractor det (AList.update k (Num v') features)))"
proof (cases "default_mode det")
  case True
  then show ?thesis
    using default_mono[OF assms(1)] by (simp add: scoreContractor_def default_mode_def)
next
  case False
  with assms(2) have w: "weights_ok det" and m: "above_mean det k v" by simp_all
  note a = detectAnomalies_mono[OF assms(1) m, of features]
  note p = matchFraudPatterns_mono[OF assms(1) w, of k features]
  have z: "nni (Fin 0)" "js_le (Fin 0) (Fin 0)" by (simp_all add: js_le_def js_ge_def)
  have r: "fst (applyContractorRules fs) = Fin 0" for fs
    by (simp add: applyContractorRules_def)
  have "js_le
     (js_min2 (js_round (js_add (js_add (js_add (Fin 0)
        (fst (detectAnomalies det (AList.update k (Num v) features))))
        (fst (matchFraudPatterns det (AList.update k (Num v) features))))
        (fst (applyContractorRules (AList.update k (Num v) features))))) (Fin 100))
     (js_min2 (js_round (js_add (js_add (js_add (Fin 0)
        (fst (detectAnomalies det (AList.update k (Num v') features))))
        (fst (matchFraudPatterns det (AList.update k (Num v') features))))
        (fst (applyContractorRules (AList.update k (Num v') features))))) (Fin 100))"
    unfolding r
    by (intro cap_mono add_mono_nni nni_add z) (simp_all add: a p)
  with False show ?thesis
    by (auto simp: scoreContractor_def default_mode_def Let_def)
qed

lemma sample_above_mean: "above_mean sample_detector ''largeAwardRatio'' (Fin (7 / 20))"
  by (simp add: above_mean_def sample_detector_def sample_stats_def js_le_def js_ge_def js_gt_def)

lemma sample_update_1:
  "AList.update ''largeAwardRatio'' (Num x) sample_features
   = [(''largeAwardRatio'', Num x), (''sole_source'', Num (Fin 1)),
      (''highComplexityRatio'', Num (Fin (5 / 10)))]"
  by (simp add: sample_features_def)

lemma sample_score_35:
  "score (scoreContractor sample_detector
            (AList.update ''largeAwardRatio'' (Num (Fin (7 / 20))) sample_features)) = Fin 10"
  unfolding sample_update_1
  by (simp add: scoreContractor_def sample_detector_def Let_def
      detectAnomalies_def matchFraudPatterns_def applyContractorRules_def
      sample_stats_def threshold_def optimizeThresholds_def get_prop_def fnum_def
      add_factor_def js_sub_def js_gt_def js_min2_def truthy_num_def replace_sole)

lemma sample_score_50:
  "score (scoreContractor sample_detector
            (AList.update ''largeAwardRatio'' (Num (Fin (1 / 2))) sample_features)) = Fin 25"
  unfolding sample_update_1
  by (simp add: scoreContractor_def sample_detector_def Let_def
      detectAnomalies_def matchFraudPatterns_def applyContractorRules_def
      sample_stats_def threshold_def optimizeThresholds_def get_prop_def fnum_def
      add_factor_def js_sub_def js_gt_def js_min2_def truthy_num_def replace_sole)

text \<open>At the sample detector, raising \<open>largeAwardRatio\<close> from 0.35 to 0.5 takes the
  score from 10 to 25.\<close>

theorem score_monotone_witness:
  "js_le (Fin (7 / 20)) (Fin (1 / 2))
   \<and> weights_ok sample_detector
   \<and> above_mean sample_detector ''largeAwardRatio'' (Fin (7 / 20))
   \<and> js_le (score (scoreContractor sample_detector
                     (AList.update ''largeAwardRatio'' (Num (Fin (7 / 20))) sample_features)))
            (score (scoreContractor sample_detector
                     (AList.update ''largeAwardRatio'' (Num (Fin (1 / 2))) sample_features)))
   \<and> score (scoreContractor sample_detector
              (AList.update ''largeAwardRatio'' (Num (Fin (7 / 20))) sample_features)) = Fin 10
   \<and> score (scoreContractor sample_detector
              (AList.update ''largeAwardRatio'' (Num (Fin (1 / 2))) sample_features)) = Fin 25"
proof -
  have l: "js_le (Fin (7 / 20)) (Fin (1 / 2))"
    by (simp add: js_le_def js_ge_def)
  have h: "default_mode sample_detector
           \<or> (weights_ok sample_detector
              \<and> above_mean sample_detector ''largeAwardRatio'' (Fin (7 / 20)))"
    using sample_weights_ok sample_above_mean by blast
  from score_monotone[OF l h, of sample_features] l sample_weights_ok sample_above_mean
    sample_score_35 sample_score_50
  show ?thesis by blast
qed

text \<open>
  The claim as stated fails with the anomaly strategy active: with mean 0.9 and std 0.1,
  the ratio 0.4 (beyond the rule threshold 0.3) has z-score -5 and scores 15; raised to
  0.9 it has z-score 0 and scores 0.
\<close>

theorem below_mean_counterexample:
  "score (scoreContractor high_mean_detector
            (AList.update ''largeAwardRatio'' (Num (Fin (4 / 10))) [])) = Fin 15
   \<and> score (scoreContractor high_mean_detector
            (AList.update ''largeAwardRatio'' (Num (Fin (9 / 10))) [])) = Fin 0
   \<and> js_gt (Fin (4 / 10)) (Fin (3 / 10)) \<and> js_lt (Fin (4 / 10)) (Fin (9 / 10))
   \<and> js_lt (Fin 0) (Fin 15)"
  by (simp add: scoreContractor_def high_mean_detector_def sample_detector_def Let_def
      detectAnomalies_def matchFraudPatterns_def applyContractorRules_def
      sample_stats_def threshold_def optimizeThresholds_def get_prop_def fnum_def
      add_factor_def js_sub_def js_gt_def js_min2_def truthy_num_def replace_sole)

subsection \<open>The feature extractors on degenerate input\<close>

text \<open>
  Claim C2 (the code misses it). \<open>extractFeatures\<close> of the scoring route returns the empty
  vector for an empty collection, but \<open>extractContractorFeatures\<close> returns thirteen
  entries, four of them NaN and three infinite, and \<open>extractHealthcareFeatures\<close> fourteen.
  None of them throws.
\<close>

theorem empty_collection_features:
  "extractContractorFeatures () [] =
     [(''totalAwarded'', Num (Fin 0)), (''avgAward'', Num (Fin 0)), (''awardCount'', Num (Fin 0)),
      (''maxAward'', Num NInf), (''minAward'', Num PInf), (''awardStdDev'', Num (Fin 0)),
      (''concentrationIndex'', Num (Fin 0)), (''agencyConcentration'', Num NInf),
      (''yearOverYearGrowth'', Num (Fin 0)), (''soleSourceRatio'', Num NaN),
      (''highRiskCategoryRatio'', Num NaN), (''defenseRatio'', Num NaN),
      (''largeAwardRatio'', Num NaN)]
   \<and> extractHealthcareFeatures clean_provider (Some []) (Some []) =
     [(''totalBilled'', Num (Fin 0)), (''avgClaim'', Num NaN), (''claimCount'', Num (Fin 0)),
      (''avgCodeComplexity'', Num NaN), (''highComplexityRatio'', Num NaN),
      (''uniqueServiceTypes'', Num (Fin 0)), (''avgServicesPerPatient'', Num (Fin 0)),
      (''totalPharmaPayments'', Num (Fin 0)), (''pharmaPaymentCount'', Num (Fin 0)),
      (''uniquePharmaCompanies'', Num (Fin 0)), (''pharmaConcentration'', Num NInf),
      (''consultingPaymentRatio'', Num NaN), (''hasExclusionHistory'', Num (Fin 0)),
      (''relatedPartyExcluded'', Num (Fin 0))]
   \<and> extractFeatures (Some []) = []"
proof -
  have a: "extractContractorFeatures () [] =
     [(''totalAwarded'', Num (Fin 0)), (''avgAward'', Num (Fin 0)), (''awardCount'', Num (Fin 0)),
      (''maxAward'', Num NInf), (''minAward'', Num PInf), (''awardStdDev'', Num (Fin 0)),
      (''concentrationIndex'', Num (Fin 0)), (''agencyConcentration'', Num NInf),
      (''yearOverYearGrowth'', Num (Fin 0)), (''soleSourceRatio'', Num NaN),
      (''highRiskCategoryRatio'', Num NaN), (''defenseRatio'', Num NaN),
      (''largeAwardRatio'', Num NaN)]"
    by (simp add: extractContractorFeatures_def js_sum_def or_else_def truthy_num_def
        Math_max_def Math_min_def calculateStdDev_def count_agencies_def groupByYear_def
        calculateGrowthRate_def ratio_def Let_def)
  have b: "extractHealthcareFeatures clean_provider (Some []) (Some []) =
     [(''totalBilled'', Num (Fin 0)), (''avgClaim'', Num NaN), (''claimCount'', Num (Fin 0)),
      (''avgCodeComplexity'', Num NaN), (''highComplexityRatio'', Num NaN),
      (''uniqueServiceTypes'', Num (Fin 0)), (''avgServicesPerPatient'', Num (Fin 0)),
      (''totalPharmaPayments'', Num (Fin 0)), (''pharmaPaymentCount'', Num (Fin 0)),
      (''uniquePharmaCompanies'', Num (Fin 0)), (''pharmaConcentration'', Num NInf),
      (''consultingPaymentRatio'', Num NaN), (''hasExclusionHistory'', Num (Fin 0)),
      (''relatedPartyExcluded'', Num (Fin 0))]"
    by (simp add: extractHealthcareFeatures_def billing_features_def payment_features_def
        clean_provider_def js_sum_def or_else_def truthy_num_def Math_max_def
        sum_by_company_def ratio_def Let_def)
  have c: "extractFeatures (Some []) = []"
    by (simp add: extractFeatures_def)
  from a b c show ?thesis by simp
qed

lemma lower_maint: "toLowerCase ''Maintenance'' = ''maintenance''"
  by (simp add: toLowerCase_def toLowerCase_char_def)

lemma lower_doe: "toLowerCase ''Department of Energy'' = ''department of energy''"
  by (simp add: toLowerCase_def toLowerCase_char_def)

text \<open>
  Claim C4 (the code misses it). The award shares are divided by the total with no guard:
  one award whose amount is missing, read as 0, gives a concentration index of NaN.
\<close>

theorem zero_total_gives_NaN:
  "extractContractorFeatures () [award_without_amount] =
     [(''totalAwarded'', Num (Fin 0)), (''avgAward'', Num (Fin 0)), (''awardCount'', Num (Fin 1)),
      (''maxAward'', Num (Fin 0)), (''minAward'', Num (Fin 0)), (''awardStdDev'', Num (Fin 0)),
      (''concentrationIndex'', Num NaN), (''agencyConcentration'', Num (Fin 1)),
      (''yearOverYearGrowth'', Num (Fin 0)), (''soleSourceRatio'', Num (Fin 0)),
      (''highRiskCategoryRatio'', Num (Fin 0)), (''defenseRatio'', Num (Fin 0)),
      (''largeAwardRatio'', Num (Fin 0))]"
  by (simp add: extractContractorFeatures_def award_without_amount_def js_sum_def or_else_def
      truthy_num_def Math_max_def Math_min_def calculateStdDev_def count_agencies_def
      groupByYear_def calculateGrowthRate_def ratio_def Let_def js_max2_def js_min2_def
      js_sub_def js_pow2_def num_prop_def str_or_def is_sole_source_def is_defense_def
      lower_maint lower_doe js_gt_def)

subsection \<open>Year-over-year growth\<close>

lemma groupByYear_foldl: "groupByYear items = foldl gstep [] items"
proof -
  have "(\<lambda>byYear item.
              case Start_Date item of
                None \<Rightarrow> byYear
              | Some date \<Rightarrow>
                  if date = [] then byYear
                  else (let year = take 4 date
                        in AList.update year
                             (js_add (or_else (num_prop byYear year) (Fin 0))
                                     (or_else (Award_Amount item) (Fin 0)))
                             byYear)) = gstep"
    by (intro ext) (simp add: gstep_def year_of_def amt_def Let_def split: option.splits)
  then show ?thesis by (simp add: groupByYear_def)
qed

lemma is_fin_amt: "Award_Amount a \<noteq> PInf \<Longrightarrow> Award_Amount a \<noteq> NInf \<Longrightarrow> is_fin (amt a)"
  by (cases "Award_Amount a") (simp_all add: amt_def or_else_def truthy_num_def)

lemma is_fin_add: "is_fin a \<Longrightarrow> is_fin b \<Longrightarrow> is_fin (js_add a b)"
  by (cases a; cases b; simp)

lemma or_else_zero_fin: "is_fin a \<Longrightarrow> or_else a (Fin 0) = a"
  by (cases a) (auto simp: or_else_def truthy_num_def)

lemma start_or_else: "fin_vals acc \<Longrightarrow> or_else (num_prop acc y) (Fin 0) = start acc y"
  by (cases "map_of acc y")
     (auto simp: start_def num_prop_def fin_vals_def or_else_zero_fin, simp add: or_else_def truthy_num_def)

lemma is_fin_start: "fin_vals acc \<Longrightarrow> is_fin (start acc y)"
  by (cases "map_of acc y") (auto simp: start_def fin_vals_def)

lemma gstep_fin_vals:
  assumes "fin_vals acc" "Award_Amount a \<noteq> PInf" "Award_Amount a \<noteq> NInf"
  shows "fin_vals (gstep acc a)"
proof (cases "year_of a")
  case None
  then show ?thesis using assms(1) by (simp add: gstep_def)
next
  case (Some year)
  have "is_fin (js_add (or_else (num_prop acc year) (Fin 0)) (amt a))"
    using assms by (simp add: start_or_else is_fin_add is_fin_start is_fin_amt)
  then show ?thesis
    using assms(1) by (auto simp: gstep_def Some fin_vals_def update_conv')
qed

lemma gstep_map_of:
  assumes "fin_vals acc"
  shows "map_of (gstep acc a) y =
           (if year_of a = Some y then Some (js_add (start acc y) (amt a)) else map_of acc y)"
  using assms by (cases "year_of a") (auto simp: gstep_def update_conv' start_or_else)

lemma groupByYear_values:
  assumes "finite_amounts items" "fin_vals acc"
  shows "map_of (foldl gstep acc items) y =
           (if map_of acc y = None \<and> filter (\<lambda>a. year_of a = Some y) items = [] then None
            else Some (foldl js_add (start acc y)
                         (map amt (filter (\<lambda>a. year_of a = Some y) items))))"
  using assms
proof (induction items arbitrary: acc)
  case Nil
  then show ?case by (auto simp: start_def)
next
  case (Cons a items)
  from Cons.prems have fa: "Award_Amount a \<noteq> PInf" "Award_Amount a \<noteq> NInf"
    and fi: "finite_amounts items"
    by (simp_all add: finite_amounts_def)
  note fv = gstep_fin_vals[OF Cons.prems(2) fa]
  have st: "start (gstep acc a) y =
              (if year_of a = Some y then js_add (start acc y) (amt a) else start acc y)"
    by (simp add: start_def gstep_map_of[OF Cons.prems(2)])
  show ?case
    using Cons.IH[OF fi fv] by (simp add: st gstep_map_of[OF Cons.prems(2)])
qed

lemma gstep_keys:
  "fst ` set (gstep acc a) = fst ` set acc \<union> set_option (year_of a)"
  by (cases "year_of a") (auto simp: gstep_def update_keys[THEN arg_cong, of set, simplified])

lemma map_filter_Cons_set:
  "set (List.map_filter f (a # xs)) = set_option (f a) \<union> set (List.map_filter f xs)"
  by (cases "f a") (simp_all add: List.map_filter_simps)

lemma groupByYear_keys:
  "fst ` set (foldl gstep acc items) = fst ` set acc \<union> set (List.map_filter year_of items)"
proof (induction items arbitrary: acc)
  case Nil
  then show ?case by (simp add: List.map_filter_simps)
next
  case (Cons a items)
  show ?case
    unfolding foldl_Cons Cons.IH gstep_keys map_filter_Cons_set by blast
qed

lemma groupByYear_distinct:
  "distinct (map fst acc) \<Longrightarrow> distinct (map fst (foldl gstep acc items))"
proof (induction items arbitrary: acc)
  case Nil
  then show ?case by simp
next
  case (Cons a items)
  have "distinct (map fst (gstep acc a))"
    using Cons.prems by (cases "year_of a") (simp_all add: gstep_def distinct_update)
  from Cons.IH[OF this] show ?case by simp
qed

lemma years_sorted: "sort (map fst (groupByYear awards)) = spec_years awards"
proof -
  have d: "distinct (map fst (groupByYear awards))"
    by (simp add: groupByYear_foldl groupByYear_distinct)
  have s: "set (map fst (groupByYear awards)) = set (remdups (List.map_filter year_of awards))"
    by (simp add: groupByYear_foldl groupByYear_keys)
  have "sort (map fst (groupByYear awards))
          = sorted_list_of_set (set (map fst (groupByYear awards)))"
    using d by (simp only: sorted_list_of_set_sort_remdups distinct_remdups_id)
  also have "\<dots> = sorted_list_of_set (set (remdups (List.map_filter year_of awards)))"
    by (simp only: s)
  also have "\<dots> = sort (remdups (List.map_filter year_of awards))"
    by (simp only: sorted_list_of_set_sort_remdups remdups_remdups)
  finally have "sort (map fst (groupByYear awards))
                = sort (remdups (List.map_filter year_of awards))" .
  then show ?thesis by (simp add: spec_years_def)
qed


lemma foldl_add_fin: "is_fin s \<Longrightarrow> list_all is_fin xs \<Longrightarrow> is_fin (foldl js_add s xs)"
  by (induction xs arbitrary: s) (simp_all add: is_fin_add)

lemma total_value:
  assumes "finite_amounts awards" "y \<in> set (spec_years awards)"
  shows "num_prop (groupByYear awards) y = spec_year_total awards y"
    and "is_fin (spec_year_total awards y)"
proof -
  from assms(2) have "y \<in> set (List.map_filter year_of awards)"
    by (simp add: spec_years_def)
  then have ne: "filter (\<lambda>a. year_of a = Some y) awards \<noteq> []"
    by (auto simp: List.map_filter_def filter_empty_conv)
  have fv: "fin_vals []" by (simp add: fin_vals_def)
  show "num_prop (groupByYear awards) y = spec_year_total awards y"
    using groupByYear_values[OF assms(1) fv, of y] ne
    by (simp add: num_prop_def groupByYear_foldl spec_year_total_def js_sum_def start_def
        amt_def[abs_def])
  have "list_all is_fin (map amt (filter (\<lambda>a. year_of a = Some y) awards))"
    using assms(1) by (auto simp: finite_amounts_def list_all_iff is_fin_amt)
  then show "is_fin (spec_year_total awards y)"
    by (simp add: spec_year_total_def js_sum_def foldl_add_fin amt_def[abs_def, symmetric])
qed

lemma last_two:
  "2 \<le> length ys \<Longrightarrow> ys ! (length ys - 1) = last ys \<and> ys ! (length ys - 2) = last (butlast ys)
     \<and> last ys \<in> set ys \<and> last (butlast ys) \<in> set ys"
proof -
  assume l: "2 \<le> length ys"
  then have n: "ys \<noteq> []" "butlast ys \<noteq> []" by (auto simp: length_greater_0_conv[symmetric] simp del: length_greater_0_conv)
  have a: "ys ! (length ys - 1) = last ys" using n by (simp add: last_conv_nth)
  have "last (butlast ys) = butlast ys ! (length (butlast ys) - 1)"
    using n by (simp add: last_conv_nth)
  also have "\<dots> = ys ! (length ys - 2)"
    using l by (simp add: nth_butlast numeral_2_eq_2)
  finally have b: "ys ! (length ys - 2) = last (butlast ys)" by simp
  have "last (butlast ys) \<in> set (butlast ys)" using n by simp
  then have "last (butlast ys) \<in> set ys" by (rule in_set_butlastD)
  with a b n show ?thesis by simp
qed

lemma or_else_one_fin: "is_fin a \<Longrightarrow> or_else a (Fin 1) = (if a = Fin 0 then Fin 1 else a)"
  by (cases a) (auto simp: or_else_def truthy_num_def)

lemma growth_two_years:
  assumes "finite_amounts awards" "2 \<le> length (spec_years awards)"
  shows "calculateGrowthRate (groupByYear awards) = spec_growth awards"
    and "route_growthRate (groupByYear awards) = spec_growth awards"
proof -
  note l = last_two[OF assms(2)]
  note a = total_value[OF assms(1), of "last (spec_years awards)"]
  note b = total_value[OF assms(1), of "last (butlast (spec_years awards))"]
  show "calculateGrowthRate (groupByYear awards) = spec_growth awards"
    using assms(2) l a b
    by (simp add: calculateGrowthRate_def years_sorted spec_growth_def Let_def
        or_else_zero_fin or_else_one_fin)
  show "route_growthRate (groupByYear awards) = spec_growth awards"
    using assms(2) l a b
    by (simp add: route_growthRate_def years_sorted spec_growth_def Let_def
        or_else_zero_fin or_else_one_fin)
qed

lemma growth_one_year:
  assumes "length (spec_years awards) < 2"
  shows "route_growthRate (groupByYear awards) = spec_growth awards"
  using assms by (simp add: route_growthRate_def years_sorted spec_growth_def Let_def)


lemma route_key: "awards \<noteq> [] \<Longrightarrow>
   get_prop (extractFeatures (Some awards)) ''yearOverYearGrowth''
   = Num (route_growthRate (groupByYear awards))"
  by (simp add: extractFeatures_def get_prop_def Let_def)

lemma contractor_key:
  "get_prop (extractContractorFeatures c awards) ''yearOverYearGrowth''
   = Num (calculateGrowthRate (groupByYear awards))"
  by (simp add: extractContractorFeatures_def get_prop_def Let_def)

text \<open>
  Claim C3, as amended. For a non-empty award collection with finite amounts, the
  \<open>yearOverYearGrowth\<close> of the route's \<open>extractFeatures\<close> is 1 when the start dates span
  fewer than two distinct years, and otherwise the most recent year's total divided by the
  prior year's total, or by 1 when that prior total is zero. With two or more years
  \<open>extractContractorFeatures\<close> computes the same value. (What \<open>extractContractorFeatures\<close>
  returns for fewer than two years is not part of the statement.)
\<close>

theorem growth_feature:
  assumes "finite_amounts awards" and "awards \<noteq> []"
  shows "get_prop (extractFeatures (Some awards)) ''yearOverYearGrowth'' = Num (spec_growth awards)
     \<and> (2 \<le> length (spec_years awards) \<longrightarrow>
          get_prop (extractContractorFeatures c awards) ''yearOverYearGrowth''
            = Num (spec_growth awards))"
proof (cases "length (spec_years awards) < 2")
  case True
  then show ?thesis
    by (simp add: route_key[OF assms(2)] growth_one_year)
next
  case False
  then have "2 \<le> length (spec_years awards)" by simp
  from growth_two_years[OF assms(1) this] show ?thesis
    by (simp add: route_key[OF assms(2)] contractor_key)
qed

lemma spec_years_two: "spec_years [award_2022, award_2023] = [''2022'', ''2023'']"
  by (simp add: spec_years_def List.map_filter_simps year_of_def award_2022_def award_2023_def)

lemma spec_growth_two: "spec_growth [award_2022, award_2023] = Fin 5"
  by (simp add: spec_growth_def spec_years_two Let_def)
     (simp add: spec_year_total_def year_of_def award_2022_def award_2023_def js_sum_def
        or_else_def truthy_num_def)

text \<open>Totals of 100 in 2022 and 500 in 2023: the growth is 5 in both extractors.\<close>

theorem growth_feature_witness:
  "finite_amounts [award_2022, award_2023]
   \<and> length (spec_years [award_2022, award_2023]) = 2
   \<and> get_prop (extractFeatures (Some [award_2022, award_2023])) ''yearOverYearGrowth''
       = Num (Fin 5)
   \<and> get_prop (extractContractorFeatures () [award_2022, award_2023]) ''yearOverYearGrowth''
       = Num (Fin 5)"
proof -
  have f: "finite_amounts [award_2022, award_2023]"
    by (simp add: finite_amounts_def award_2022_def award_2023_def)
  have n: "[award_2022, award_2023] \<noteq> []" by simp
  from growth_feature[OF f n, of "()"] f show ?thesis
    by (simp add: spec_years_two spec_growth_two)
qed

lemma group_zero_prior:
  "groupByYear [award_2022_zero, award_2023] = [(''2022'', Fin 0), (''2023'', Fin 500)]"
  by (simp add: groupByYear_def award_2022_zero_def award_2023_def num_prop_def or_else_def
      truthy_num_def)

text \<open>
  The claim as stated fails when the prior year's total is zero: the code divides by 1,
  so with 0 in 2022 and 500 in 2023 the feature is 500, not 500 divided by 0.
\<close>

theorem zero_prior_year_counterexample:
  "get_prop (extractFeatures (Some [award_2022_zero, award_2023])) ''yearOverYearGrowth''
     = Num (Fin 500)
   \<and> spec_year_total [award_2022_zero, award_2023] ''2023'' = Fin 500
   \<and> spec_year_total [award_2022_zero, award_2023] ''2022'' = Fin 0
   \<and> spec_growth_plain [award_2022_zero, award_2023] = PInf"
proof -
  have y: "spec_years [award_2022_zero, award_2023] = [''2022'', ''2023'']"
    by (simp add: spec_years_def List.map_filter_simps year_of_def award_2022_zero_def
        award_2023_def)
  have t: "spec_year_total [award_2022_zero, award_2023] ''2023'' = Fin 500"
    "spec_year_total [award_2022_zero, award_2023] ''2022'' = Fin 0"
    by (simp_all add: spec_year_total_def year_of_def award_2022_zero_def award_2023_def
        js_sum_def or_else_def truthy_num_def)
  have p: "spec_growth_plain [award_2022_zero, award_2023] = PInf"
    by (simp add: spec_growth_plain_def y t Let_def)
  have r: "route_growthRate (groupByYear [award_2022_zero, award_2023]) = Fin 500"
    by (simp add: group_zero_prior route_growthRate_def num_prop_def or_else_def truthy_num_def
        Let_def)
  have "get_prop (extractFeatures (Some [award_2022_zero, award_2023])) ''yearOverYearGrowth''
     = Num (Fin 500)"
    by (simp add: route_key r)
  with t p show ?thesis by simp
qed

text \<open>With a single year \<open>calculateGrowthRate\<close> returns 0.\<close>

lemma single_year_contractor_growth:
  "get_prop (extractContractorFeatures () [award_2023]) ''yearOverYearGrowth'' = Num (Fin 0)"
  by (simp add: contractor_key groupByYear_def award_2023_def num_prop_def or_else_def
      truthy_num_def calculateGrowthRate_def)

subsection \<open>Saving and loading\<close>

lemma json_val_clean: "clean_val v \<Longrightarrow> json_val v = v"
  by (cases v rule: json_val.cases) simp_all

lemma json_object_clean: "clean_object obj \<Longrightarrow> json_object obj = obj"
proof (induction obj)
  case Nil
  then show ?case by (simp add: json_object_def)
next
  case (Cons e obj)
  then have c: "clean_val (snd e)" and r: "clean_object obj"
    by (simp_all add: clean_object_def)
  from c have u: "snd e \<noteq> Undefined" by auto
  from Cons.IH[OF r] c u show ?case
    by (simp add: json_object_def json_val_clean)
qed

lemma json_stats_clean: "clean_stats s \<Longrightarrow> json_stats s = s"
  by (simp add: clean_stats_def json_stats_def json_val_clean)

lemma json_fraud_type_clean: "clean_fraud_type e \<Longrightarrow> json_fraud_type e = e"
  by (simp add: clean_fraud_type_def json_fraud_type_def json_val_clean json_object_clean)

lemma json_industry_clean: "clean_industry e \<Longrightarrow> json_industry e = e"
  by (simp add: clean_industry_def json_industry_def json_val_clean json_object_clean)

lemma json_factor_clean: "clean_factor f \<Longrightarrow> json_factor f = f"
  by (simp add: clean_factor_def json_factor_def json_val_clean)

lemma map_snd_clean:
  "list_all (\<lambda>e. P (snd e)) es \<Longrightarrow> (\<And>x. P x \<Longrightarrow> f x = x) \<Longrightarrow>
   map (\<lambda>e. (fst e, f (snd e))) es = es"
  by (induction es) simp_all

lemma map_clean: "list_all P xs \<Longrightarrow> (\<And>x. P x \<Longrightarrow> f x = x) \<Longrightarrow> map f xs = xs"
  by (induction xs) simp_all

lemma json_patterns_clean: "clean_patterns p \<Longrightarrow> json_patterns p = p"
proof -
  assume c: "clean_patterns p"
  have a: "map_option (map (\<lambda>e. (fst e, json_fraud_type (snd e)))) (byFraudType p) = byFraudType p"
    using c by (cases "byFraudType p")
      (simp_all add: clean_patterns_def map_snd_clean[where P=clean_fraud_type] json_fraud_type_clean)
  have b: "map_option (map (\<lambda>e. (fst e, json_industry (snd e)))) (byIndustry p) = byIndustry p"
    using c by (cases "byIndustry p")
      (simp_all add: clean_patterns_def map_snd_clean[where P=clean_industry] json_industry_clean)
  have d: "map_option json_object (indicators p) = indicators p"
    using c by (cases "indicators p") (simp_all add: clean_patterns_def json_object_clean)
  have e: "map_option (map json_factor) (commonFactors p) = commonFactors p"
    using c by (cases "commonFactors p")
      (simp_all add: clean_patterns_def map_clean[where P=clean_factor] json_factor_clean)
  show ?thesis
    by (simp add: json_patterns_def a b d e)
qed

lemma save_load:
  "load d' p (save det p now fs) =
     Inr (d'\<lparr>modelVersion := modelVersion det, trained := trained det,
             featureStats := map (\<lambda>e. (fst e, json_stats (snd e))) (featureStats det),
             fraudPatterns := json_patterns (fraudPatterns det),
             thresholds := json_object (thresholds det)\<rparr>)"
  by (simp add: load_def save_def)

lemma save_load_clean:
  assumes "clean_model det"
  shows "load d' p (save det p now fs) =
     Inr (d'\<lparr>modelVersion := modelVersion det, trained := trained det,
             featureStats := featureStats det,
             fraudPatterns := fraudPatterns det,
             thresholds := thresholds det\<rparr>)"
  using assms
  by (simp add: save_load clean_model_def json_patterns_clean json_object_clean
      map_snd_clean[where P=clean_stats] json_stats_clean)

text \<open>
  Claim C9, as amended. When the trained model's profile, patterns and thresholds hold
  only values that JSON can carry (finite numbers, no NaN and no infinity), saving it and
  loading the saved file gives a model whose \<open>featureStats\<close>, \<open>fraudPatterns\<close> and
  \<open>thresholds\<close> are equal to the trained model's; the time stamp plays no part.
\<close>

theorem save_load_roundtrip:
  assumes "clean_model (fst (train d corpus cases))"
  shows "\<exists>m. load d' p (save (fst (train d corpus cases)) p now fs) = Inr m
           \<and> featureStats m = featureStats (fst (train d corpus cases))
           \<and> fraudPatterns m = fraudPatterns (fst (train d corpus cases))
           \<and> thresholds m = thresholds (fst (train d corpus cases))"
  by (simp add: save_load_clean[OF assms])

lemma stats_half: "stats_of [Fin (1 / 2), Fin (1 / 2)] =
   \<lparr>st_mean = Num (Fin (1 / 2)), st_std = Num (Fin 0), st_min = Num (Fin (1 / 2)),
    st_max = Num (Fin (1 / 2)), st_median = Num (Fin (1 / 2)), st_p25 = Num (Fin (1 / 2)),
    st_p75 = Num (Fin (1 / 2)), st_p90 = Num (Fin (1 / 2)), st_p95 = Num (Fin (1 / 2)),
    st_count = Num (Fin 2)\<rparr>"
  by (simp add: stats_of_def js_sum_def js_sub_def js_pow2_def sort_numbers_def js_gt_def Let_def)

lemma sample_profile:
  "calculateFeatureStats sample_corpus = [(''largeAwardRatio'', stats_of [Fin (1 / 2), Fin (1 / 2)])]"
  by (simp add: calculateFeatureStats_def collect_values_def sample_corpus_def)

lemma sample_learned:
  "learnFraudPatterns sample_cases =
     \<lparr>byFraudType = Some [(''kickbacks'', \<lparr>ft_count = Num (Fin 1), ft_totalAmount = Num (Fin 1000),
                                        ft_avgAmount = Num (Fin 1000), ft_indicators = []\<rparr>)],
      byIndustry = Some [(''healthcare'', \<lparr>in_count = Num (Fin 1), in_totalAmount = Num (Fin 1000),
                                        in_fraudTypes = []\<rparr>)],
      indicators = Some [(''Sole Source'', Num (Fin 1))],
      commonFactors = Some [\<lparr>cf_indicator = ''Sole Source'', cf_count = Num (Fin 1),
                             cf_weight = Num (Fin 1)\<rparr>]\<rparr>"
  by (simp add: learnFraudPatterns_def sample_cases_def count_fraud_type_def count_industry_def
      count_indicator_def str_or_def get_prop_def or_else_def truthy_num_def Let_def)

lemma sample_trained_clean: "clean_model (fst (train new_FraudDetector sample_corpus sample_cases))"
  by (simp add: train_def Let_def clean_model_def sample_profile stats_half sample_learned
      clean_stats_def clean_patterns_def clean_fraud_type_def clean_industry_def clean_factor_def
      clean_object_def optimizeThresholds_def)


text \<open>A corpus of two vectors and one labeled case: the trained model is clean and is
  read back as it was.\<close>

theorem save_load_roundtrip_witness:
  "clean_model (fst (train new_FraudDetector sample_corpus sample_cases))
   \<and> (\<exists>m. load new_FraudDetector MODEL_PATH
              (save (fst (train new_FraudDetector sample_corpus sample_cases)) MODEL_PATH
                 ''2026-01-01T00:00:00.000Z'' Map.empty) = Inr m
         \<and> featureStats m = [(''largeAwardRatio'', stats_of [Fin (1 / 2), Fin (1 / 2)])]
         \<and> fraudPatterns m = learnFraudPatterns sample_cases
         \<and> thresholds m = optimizeThresholds sample_corpus sample_cases)"
proof -
  from save_load_roundtrip[OF sample_trained_clean, of new_FraudDetector MODEL_PATH
      "''2026-01-01T00:00:00.000Z''" Map.empty]
  obtain m where m: "load new_FraudDetector MODEL_PATH
              (save (fst (train new_FraudDetector sample_corpus sample_cases)) MODEL_PATH
                 ''2026-01-01T00:00:00.000Z'' Map.empty) = Inr m"
    "featureStats m = featureStats (fst (train new_FraudDetector sample_corpus sample_cases))"
    "fraudPatterns m = fraudPatterns (fst (train new_FraudDetector sample_corpus sample_cases))"
    "thresholds m = thresholds (fst (train new_FraudDetector sample_corpus sample_cases))"
    by blast
  have "featureStats m = [(''largeAwardRatio'', stats_of [Fin (1 / 2), Fin (1 / 2)])]"
    "fraudPatterns m = learnFraudPatterns sample_cases"
    "thresholds m = optimizeThresholds sample_corpus sample_cases"
    using m(2-4) by (simp_all add: train_def Let_def sample_profile)
  with m(1) sample_trained_clean show ?thesis by blast
qed

lemma stats_nan: "stats_of [NaN] =
   \<lparr>st_mean = Num NaN, st_std = Num NaN, st_min = Num NaN,
    st_max = Num NaN, st_median = Num NaN, st_p25 = Num NaN,
    st_p75 = Num NaN, st_p90 = Num NaN, st_p95 = Num NaN,
    st_count = Num (Fin 1)\<rparr>"
  by (simp add: stats_of_def js_sum_def js_sub_def js_pow2_def sort_numbers_def Let_def)

lemma nan_profile:
  "calculateFeatureStats nan_corpus = [(''concentrationIndex'', stats_of [NaN])]"
  by (simp add: calculateFeatureStats_def collect_values_def nan_corpus_def)

text \<open>
  The claim as stated fails when the corpus holds a NaN, which \<open>extractContractorFeatures\<close>
  produces for \<open>concentrationIndex\<close> when a contractor's amounts sum to zero: the trained
  profile has mean NaN, the saved file holds \<^verbatim>\<open>null\<close>, and the loaded profile has mean
  \<^verbatim>\<open>null\<close>.
\<close>

theorem nan_profile_counterexample:
  "map (st_mean \<circ> snd) (featureStats (fst (train new_FraudDetector nan_corpus []))) = [Num NaN]
   \<and> map_sum id (map (st_mean \<circ> snd) \<circ> featureStats)
        (load new_FraudDetector MODEL_PATH
           (save (fst (train new_FraudDetector nan_corpus [])) MODEL_PATH
              ''2026-01-01T00:00:00.000Z'' Map.empty))
      = Inr [Null]"
  by (simp add: save_load train_def Let_def nan_profile stats_nan json_stats_def)

text \<open>
  Claim C8 (the code misses it). \<open>load\<close> of the detector raises for a missing file and for
  an unparseable one; nothing falls back. \<open>loadModel\<close> of the scoring route catches both
  and returns no model, and \<open>route_scoreContractor\<close> then scores with the built-in table,
  the version \<open>default\<close> and confidence 0.7.
\<close>

theorem load_raises_where_loadModel_falls_back:
  "load det p (fs(p := None)) = Inl ENOENT
   \<and> load det p (fs(p \<mapsto> Unparseable t)) = Inl SyntaxError
   \<and> loadModel None (fs(MODEL_PATH := None)) = (None, None)
   \<and> loadModel None (fs(MODEL_PATH \<mapsto> Unparseable t)) = (None, None)
   \<and> r_modelVersion (route_scoreContractor features None) = ''default''
   \<and> r_confidence (route_scoreContractor features None) = Fin (7 / 10)
   \<and> r_score (route_scoreContractor [(''agencyConcentration'', Num (Fin (9 / 10)))] None) = Fin 10"
proof -
  have a: "r_score (route_scoreContractor [(''agencyConcentration'', Num (Fin (9 / 10)))] None)
           = Fin 10"
    by (simp add: route_scoreContractor_def route_default_thresholds_def Let_def
        rule_largeAward_def route_agency_def route_soleSource_def route_growth_def
        route_highRisk_def rule_defense_def route_healthcare_def fnum_def get_prop_def
        add_factor_def js_gt_def js_min2_def)
  have b: "r_modelVersion (route_scoreContractor features None) = ''default''"
    "r_confidence (route_scoreContractor features None) = Fin (7 / 10)"
    by (simp_all add: route_scoreContractor_def Let_def)
  have c: "load det p (fs(p := None)) = Inl ENOENT"
    "load det p (fs(p \<mapsto> Unparseable t)) = Inl SyntaxError"
    by (simp_all add: load_def)
  have d: "loadModel None (fs(MODEL_PATH := None)) = (None, None)"
    "loadModel None (fs(MODEL_PATH \<mapsto> Unparseable t)) = (None, None)"
    by (simp_all add: loadModel_def)
  from a b c d show ?thesis by simp
qed

end
